theory Spec2Isabelle
  imports Main "HOL-Library.Sublist" "HOL-Library.AList"
begin

section \<open>mintscript: the build orchestration pipeline\<close>

text \<open>
  A shallow embedding of \<^verbatim>\<open>src/mintscript.py\<close>: the context managers \<^verbatim>\<open>cd\<close> and
  \<^verbatim>\<open>tempdir\<close> and the function \<^verbatim>\<open>main\<close>. Everything the script does to the outside
  (working directory, files, standard output, the log, the calls of the compiler) is a
  field of the record \<open>world\<close>, passed through explicitly. A Python exception, including
  the \<^verbatim>\<open>SystemExit\<close> of \<^verbatim>\<open>sys.exit\<close>, is a value of \<open>exn\<close>; a computation returns
  \<open>(None, w)\<close> when it completes and \<open>(Some e, w)\<close> when it raises \<open>e\<close>, with the world
  as it was when the exception left.
\<close>

subsection \<open>Strings, paths and formatting\<close>

type_synonym bytes = "char list"

text \<open>\<^verbatim>\<open>'%d' % i\<close> for a non-negative \<open>i\<close>, and \<^verbatim>\<open>'%s' % n\<close> for an integer \<open>n\<close>.\<close>

definition digit_char :: "nat \<Rightarrow> char" where
  "digit_char n = char_of (48 + n)"

fun str_nat :: "nat \<Rightarrow> string" where
  "str_nat n = (if n < 10 then [digit_char n] else str_nat (n div 10) @ [digit_char (n mod 10)])"

declare str_nat.simps [simp del]

definition str_int :: "int \<Rightarrow> string" where
  "str_int i = (if i < 0 then CHR ''-'' # str_nat (nat (- i)) else str_nat (nat i))"

text \<open>
  \<^verbatim>\<open>p.rfind(c)\<close>: the index of the last occurrence of the character, or \<open>-1\<close>.
\<close>

fun rfind_from :: "string \<Rightarrow> char \<Rightarrow> int \<Rightarrow> int \<Rightarrow> int" where
  "rfind_from [] c i found = found"
| "rfind_from (x # xs) c i found = rfind_from xs c (i + 1) (if x = c then i else found)"

definition rfind :: "string \<Rightarrow> char \<Rightarrow> int" where
  "rfind p c = rfind_from p c 0 (- 1)"

text \<open>
  \<^verbatim>\<open>os.path.splitext\<close> (posixpath): the extension starts at the last dot of the last
  path component, unless that component has only leading dots before it; the loop of
  the library function looks for a character other than a dot between the last
  separator and the last dot.
\<close>

definition splitext :: "string \<Rightarrow> string \<times> string" where
  "splitext p =
     (let sepIndex = rfind p (CHR ''/'');
          dotIndex = rfind p (CHR ''.'')
      in if dotIndex > sepIndex \<and>
            list_ex (\<lambda>c. c \<noteq> CHR ''.'')
              (take (nat (dotIndex - (sepIndex + 1))) (drop (nat (sepIndex + 1)) p))
         then (take (nat dotIndex) p, drop (nat dotIndex) p)
         else (p, []))"

text \<open>\<^verbatim>\<open>os.path.join(a, b)\<close> (posixpath) for two components.\<close>

definition join :: "string \<Rightarrow> string \<Rightarrow> string" where
  "join a b =
     (if b \<noteq> [] \<and> hd b = CHR ''/'' then b
      else if a = [] \<or> last a = CHR ''/'' then a @ b
      else a @ ''/'' @ b)"

text \<open>A path lies below a directory when it continues the directory's path after a separator.\<close>

definition in_dir :: "string \<Rightarrow> string \<Rightarrow> bool" where
  "in_dir d p = prefix (d @ ''/'') p"

subsection \<open>The world and the collaborators\<close>

datatype level = DEBUG | WARNING | ERROR

fun levelno :: "level \<Rightarrow> nat" where
  "levelno DEBUG = 10"
| "levelno WARNING = 30"
| "levelno ERROR = 40"

datatype exn =
    SystemExit int
  | FileNotFoundError
  | SameFileError
  | OSError
  | IndexError
  | AssertionError
  | UnicodeDecodeError
  | TypeError

text \<open>What \<^verbatim>\<open>read()\<close> returns: a \<^verbatim>\<open>str\<close> from a file opened in text mode, \<^verbatim>\<open>bytes\<close> from one
  opened in binary mode.\<close>

datatype pyobj = PyStr string | PyBytes bytes

text \<open>
  The result of \<^verbatim>\<open>parseargs()\<close>, of which \<^verbatim>\<open>main\<close> reads \<^verbatim>\<open>args.file\<close>,
  \<^verbatim>\<open>args.output\<close> (a string or \<^verbatim>\<open>None\<close>) and \<^verbatim>\<open>args.quiet\<close>.
\<close>

record args =
  arg_file :: "string list"
  arg_output :: "string option"
  arg_quiet :: bool

text \<open>
  The file system is an association list from absolute path to content (regular files)
  and a list of directories; \<open>calls\<close> records every \<^verbatim>\<open>subprocess.call\<close> with the status
  it returned, \<open>log\<close> every record the root logger emitted, \<open>stdout\<close> what the process
  itself wrote to its standard output.
\<close>

record world =
  cwd :: string
  files :: "(string \<times> bytes) list"
  dirs :: "string list"
  stdout :: bytes
  loglevel :: level
  log :: "(level \<times> string) list"
  calls :: "(string list \<times> int) list"

text \<open>
  The collaborators outside \<^verbatim>\<open>src/mintscript.py\<close> are parameters: \<^verbatim>\<open>latexoptions\<close> and
  \<^verbatim>\<open>buildlatex\<close> of the module \<^verbatim>\<open>latex\<close> (the options object is kept as the text
  \<^verbatim>\<open>'%s'\<close> prints for it), the path \<^verbatim>\<open>tempfile.mkdtemp()\<close> returns, whether
  \<^verbatim>\<open>shutil.rmtree\<close> fails, the compiler (given the number of earlier invocations, the
  command line, the working directory and the files, it returns its exit status and the
  files it leaves), the encoding of text written to a file, the decoding of a file read
  in text mode (\<open>None\<close>: the bytes are not valid in the encoding), and the expansion of a
  path that starts with a tilde.
\<close>

record env =
  latexoptions :: "args \<Rightarrow> string"
  buildlatex :: "string \<Rightarrow> string list \<Rightarrow> string"
  mkdtemp :: string
  rmtree_fails :: bool
  xelatex :: "nat \<Rightarrow> string list \<Rightarrow> string \<Rightarrow> (string \<times> bytes) list \<Rightarrow> int \<times> (string \<times> bytes) list"
  encode :: "string \<Rightarrow> bytes"
  decode :: "bytes \<Rightarrow> string option"
  expand_tilde :: "string \<Rightarrow> string"

type_synonym 'a io = "world \<Rightarrow> 'a \<times> world"

subsection \<open>Library calls\<close>

text \<open>
  Paths are compared as strings: a relative path is joined to the working directory and
  not normalised further. The directories handed to \<^verbatim>\<open>os.chdir\<close> exist (one is the result
  of \<^verbatim>\<open>os.getcwd()\<close>, the other of \<^verbatim>\<open>mkdtemp()\<close>), and a file can be created wherever the
  script writes one; the failures modelled are the ones the script or its library calls
  detect themselves.
\<close>

definition logging_error :: "string \<Rightarrow> world \<Rightarrow> world" where
  "logging_error msg w =
     (if levelno (loglevel w) \<le> levelno ERROR then w\<lparr>log := log w @ [(ERROR, msg)]\<rparr> else w)"

definition logging_debug :: "string \<Rightarrow> world \<Rightarrow> world" where
  "logging_debug msg w =
     (if levelno (loglevel w) \<le> levelno DEBUG then w\<lparr>log := log w @ [(DEBUG, msg)]\<rparr> else w)"

definition expanduser :: "env \<Rightarrow> string \<Rightarrow> string" where
  "expanduser e p = (if p \<noteq> [] \<and> hd p = CHR ''~'' then expand_tilde e p else p)"

definition chdir :: "string \<Rightarrow> world \<Rightarrow> world" where
  "chdir d w = w\<lparr>cwd := join (cwd w) d\<rparr>"

definition isfile :: "world \<Rightarrow> string \<Rightarrow> bool" where
  "isfile w p = (map_of (files w) (join (cwd w) p) \<noteq> None)"

text \<open>
  \<^verbatim>\<open>shutil.copyfile(src, dst)\<close>: the source must exist, the two must not be the same
  file, and the destination gets the source's bytes.
\<close>

definition copyfile :: "string \<Rightarrow> string \<Rightarrow> exn option io" where
  "copyfile src dst w =
     (let s = join (cwd w) src; d = join (cwd w) dst
      in case map_of (files w) s of
           None \<Rightarrow> (Some FileNotFoundError, w)
         | Some b \<Rightarrow>
             if s = d then (Some SameFileError, w)
             else (None, w\<lparr>files := AList.update d b (files w)\<rparr>))"

text \<open>\<^verbatim>\<open>with open(name, 'w') as fp: fp.write(text)\<close>\<close>

definition write_text :: "env \<Rightarrow> string \<Rightarrow> string \<Rightarrow> world \<Rightarrow> world" where
  "write_text e name text w =
     w\<lparr>files := AList.update (join (cwd w) name) (encode e text) (files w)\<rparr>"

text \<open>\<^verbatim>\<open>open(name).read()\<close>: the default mode is text, so the result is a \<^verbatim>\<open>str\<close>.\<close>

definition read_text :: "env \<Rightarrow> string \<Rightarrow> world \<Rightarrow> exn + pyobj" where
  "read_text e name w =
     (case map_of (files w) (join (cwd w) name) of
        None \<Rightarrow> Inl FileNotFoundError
      | Some b \<Rightarrow> (case decode e b of None \<Rightarrow> Inl UnicodeDecodeError | Some s \<Rightarrow> Inr (PyStr s)))"

text \<open>\<^verbatim>\<open>sys.stdout.buffer.write(data)\<close>: the binary layer takes bytes only.\<close>

definition stdout_buffer_write :: "pyobj \<Rightarrow> exn option io" where
  "stdout_buffer_write data w =
     (case data of
        PyBytes b \<Rightarrow> (None, w\<lparr>stdout := stdout w @ b\<rparr>)
      | PyStr s \<Rightarrow> (Some TypeError, w))"

text \<open>\<^verbatim>\<open>subprocess.call(commandline)\<close>\<close>

definition subprocess_call :: "env \<Rightarrow> string list \<Rightarrow> int io" where
  "subprocess_call e commandline w =
     (let (status, fs) = xelatex e (length (calls w)) commandline (cwd w) (files w)
      in (status, w\<lparr>files := fs, calls := calls w @ [(commandline, status)]\<rparr>))"

text \<open>
  \<^verbatim>\<open>tempfile.mkdtemp()\<close> and \<^verbatim>\<open>shutil.rmtree(dirpath)\<close>. A deletion that fails raises
  \<^verbatim>\<open>OSError\<close> and is taken to leave the tree as it was; one that succeeds removes the
  directory and everything below it.
\<close>

definition make_tempdir :: "env \<Rightarrow> world \<Rightarrow> world" where
  "make_tempdir e w = w\<lparr>dirs := mkdtemp e # dirs w\<rparr>"

definition rmtree :: "env \<Rightarrow> string \<Rightarrow> exn option io" where
  "rmtree e d w =
     (if rmtree_fails e then (Some OSError, w)
      else (None, w\<lparr>files := filter (\<lambda>(p, b). \<not> in_dir d p) (files w),
                     dirs := filter (\<lambda>x. x \<noteq> d \<and> \<not> in_dir d x) (dirs w)\<rparr>))"

subsection \<open>The context managers\<close>

text \<open>
  \<^verbatim>\<open>cd\<close>: the body runs in the new directory; the \<^verbatim>\<open>finally\<close> block goes back and calls
  \<^verbatim>\<open>cleanup\<close>, whatever the body did. An exception of \<^verbatim>\<open>cleanup\<close> leaves the block in
  place of the body's outcome.
\<close>

definition cd :: "env \<Rightarrow> string \<Rightarrow> exn option io \<Rightarrow> exn option io \<Rightarrow> exn option io" where
  "cd e newdir cleanup body w =
     (let prevdir = cwd w;
          w1 = chdir (expanduser e newdir) w;
          (r, w2) = body w1;
          w3 = chdir prevdir w2;
          (c, w4) = cleanup w3
      in case c of Some x \<Rightarrow> (Some x, w4) | None \<Rightarrow> (r, w4))"

definition tempdir :: "env \<Rightarrow> (string \<Rightarrow> exn option io) \<Rightarrow> exn option io" where
  "tempdir e body w =
     (let dirpath = mkdtemp e;
          w1 = make_tempdir e w;
          cleanup = rmtree e dirpath
      in cd e dirpath cleanup (body dirpath) w1)"

subsection \<open>main\<close>

definition texfile :: string where
  "texfile = ''mintscript.tex''"

definition pdffile :: string where
  "pdffile = take (length texfile - 3) texfile @ ''pdf''"

text \<open>Line 55: the names of the staged files.\<close>

definition staged_names :: "string list \<Rightarrow> string list" where
  "staged_names fs = map (\<lambda>(i, f). ''source'' @ str_nat i @ snd (splitext f)) (enumerate 0 fs)"

text \<open>Lines 61 to 67: the staging loop over \<^verbatim>\<open>zip(args.file, files)\<close>.\<close>

fun stage :: "string \<Rightarrow> (string \<times> string) list \<Rightarrow> exn option io" where
  "stage cwd0 [] w = (None, w)"
| "stage cwd0 ((oldpath, newpath) # rest) w =
     (let oldpath' = join cwd0 oldpath
      in if \<not> isfile w oldpath'
         then (Some (SystemExit 1), logging_error (''Cannot read file '' @ oldpath') w)
         else (case copyfile oldpath' newpath w of
                 (Some x, w1) \<Rightarrow> (Some x, w1)
               | (None, w1) \<Rightarrow>
                   stage cwd0 rest
                     (logging_debug (''Copied '' @ oldpath' @ '' to '' @ newpath) w1)))"

text \<open>Lines 72 to 77: the compiler passes, \<open>n\<close> of them left to run.\<close>

definition commandline :: "string list" where
  "commandline = [''xelatex'', ''-shell-escape'', ''-batch'', texfile]"

fun run_passes :: "env \<Rightarrow> nat \<Rightarrow> exn option io" where
  "run_passes e 0 w = (None, w)"
| "run_passes e (Suc n) w =
     (let (status, w1) = subprocess_call e commandline w
      in if status \<noteq> 0
         then (Some (SystemExit status),
               logging_error (''xelatex failed with return code '' @ str_int status) w1)
         else run_passes e n w1)"

text \<open>Lines 81 to 87: the destination and the delivery.\<close>

definition deliver :: "env \<Rightarrow> args \<Rightarrow> string \<Rightarrow> exn option io" where
  "deliver e a cwd0 w =
     (case (if arg_output a = None \<or> arg_output a = Some []
            then (case arg_file a of [] \<Rightarrow> Inl IndexError
                  | f # _ \<Rightarrow> Inr (fst (splitext f) @ ''.pdf''))
            else Inr (the (arg_output a))) of
        Inl x \<Rightarrow> (Some x, w)
      | Inr out \<Rightarrow>
          (let w1 = logging_debug (''Output to '' @ out) w
           in if out = ''-''
              then (case read_text e pdffile w1 of
                      Inl x \<Rightarrow> (Some x, w1)
                    | Inr data \<Rightarrow> stdout_buffer_write data w1)
              else if out \<noteq> [] then copyfile pdffile (join cwd0 out) w1
              else (None, w1)))"

text \<open>Lines 61 to 77: staging, the assertion, the document and the compiler passes.\<close>

definition build :: "env \<Rightarrow> args \<Rightarrow> string list \<Rightarrow> string \<Rightarrow> string \<Rightarrow> exn option io" where
  "build e a names latexcode cwd0 w =
     (case stage cwd0 (zip (arg_file a) names) w of
        (Some x, w1) \<Rightarrow> (Some x, w1)
      | (None, w1) \<Rightarrow>
          if texfile \<in> set names then (Some AssertionError, w1)
          else run_passes e 2
                 (logging_debug (''LaTeX code:'' @ [CHR 0x0A] @ latexcode)
                    (write_text e texfile latexcode w1)))"

text \<open>Lines 78 to 87: the check of the artifact, then the delivery.\<close>

definition finish :: "env \<Rightarrow> args \<Rightarrow> string \<Rightarrow> exn option io" where
  "finish e a cwd0 w =
     (if \<not> isfile w pdffile
      then (Some (SystemExit 1),
            logging_error (''xelatex completed but '' @ pdffile @ '' not found in output'') w)
      else deliver e a cwd0 w)"

text \<open>Lines 61 to 87: the body of the \<^verbatim>\<open>with\<close> statement.\<close>

definition scoped :: "env \<Rightarrow> args \<Rightarrow> string list \<Rightarrow> string \<Rightarrow> string \<Rightarrow> exn option io" where
  "scoped e a names latexcode cwd0 w =
     (case build e a names latexcode cwd0 w of
        (Some x, w1) \<Rightarrow> (Some x, w1)
      | (None, w1) \<Rightarrow> finish e a cwd0 w1)"

text \<open>Lines 52 to 54: the log level and the options.\<close>

definition prologue :: "env \<Rightarrow> args \<Rightarrow> world \<Rightarrow> world" where
  "prologue e a w =
     logging_debug (latexoptions e a) (w\<lparr>loglevel := (if arg_quiet a then ERROR else DEBUG)\<rparr>)"

definition main :: "env \<Rightarrow> args \<Rightarrow> exn option io" where
  "main e a w =
     (if length (arg_file a) < 1
      then (Some (SystemExit 1), logging_error ''stdin entry is not yet supported'' w)
      else
        (let w1 = prologue e a w;
             options = latexoptions e a;
             names = staged_names (arg_file a);
             latexcode = buildlatex e options names;
             cwd0 = cwd w1
         in tempdir e (\<lambda>_. scoped e a names latexcode cwd0) w1))"

text \<open>
  The exit code of the process: \<open>0\<close> when \<^verbatim>\<open>main\<close> returns; the low eight bits of the
  argument of \<^verbatim>\<open>sys.exit\<close>, which is what the operating system reports of it (so \<open>247\<close>
  for the \<open>-9\<close> that \<^verbatim>\<open>subprocess.call\<close> returns for a compiler killed by signal 9); and
  \<open>1\<close> when any other exception reaches the top level.
\<close>

fun exit_code :: "exn option \<Rightarrow> int" where
  "exit_code None = 0"
| "exit_code (Some (SystemExit n)) = n mod 256"
| "exit_code (Some _) = 1"

subsection \<open>Notions used in the statements\<close>

text \<open>\<^verbatim>\<open>os.path.isabs\<close>; \<^verbatim>\<open>os.getcwd()\<close> and \<^verbatim>\<open>tempfile.mkdtemp()\<close> return absolute paths.\<close>

definition isabs :: "string \<Rightarrow> bool" where
  "isabs p = (p \<noteq> [] \<and> hd p = CHR ''/'')"

text \<open>A directory path as \<^verbatim>\<open>mkdtemp\<close> returns it: absolute, with no separator at the end.\<close>

definition proper_dir :: "string \<Rightarrow> bool" where
  "proper_dir p = (isabs p \<and> last p \<noteq> CHR ''/'')"

text \<open>The world in which the body of the \<^verbatim>\<open>with\<close> statement starts.\<close>

definition entered :: "env \<Rightarrow> args \<Rightarrow> world \<Rightarrow> world" where
  "entered e a w = chdir (expanduser e (mkdtemp e)) (make_tempdir e (prologue e a w))"

text \<open>The \<^verbatim>\<open>finally\<close> block of \<^verbatim>\<open>cd\<close> with the cleanup of \<^verbatim>\<open>tempdir\<close>, applied to the outcome
  of the body.\<close>

definition leave :: "env \<Rightarrow> string \<Rightarrow> exn option \<times> world \<Rightarrow> exn option \<times> world" where
  "leave e prevdir rw =
     (let (c, w4) = rmtree e (mkdtemp e) (chdir prevdir (snd rw))
      in case c of Some x \<Rightarrow> (Some x, w4) | None \<Rightarrow> (fst rw, w4))"

text \<open>The body of the \<^verbatim>\<open>with\<close> statement as \<^verbatim>\<open>main\<close> runs it, and its first part, up to the
  end of the compiler passes.\<close>

definition run_scoped :: "env \<Rightarrow> args \<Rightarrow> world \<Rightarrow> exn option \<times> world" where
  "run_scoped e a w =
     scoped e a (staged_names (arg_file a))
       (buildlatex e (latexoptions e a) (staged_names (arg_file a))) (cwd w) (entered e a w)"

definition run_build :: "env \<Rightarrow> args \<Rightarrow> world \<Rightarrow> exn option \<times> world" where
  "run_build e a w =
     build e a (staged_names (arg_file a))
       (buildlatex e (latexoptions e a) (staged_names (arg_file a))) (cwd w) (entered e a w)"

text \<open>The exit statuses of the compiler invocations a run made, in order.\<close>

definition statuses :: "env \<Rightarrow> args \<Rightarrow> world \<Rightarrow> int list" where
  "statuses e a w = map snd (drop (length (calls w)) (calls (snd (main e a w))))"

text \<open>The staging loop as \<^verbatim>\<open>main\<close> runs it, and the paths of the files below the sandbox.\<close>

definition run_stage :: "env \<Rightarrow> args \<Rightarrow> world \<Rightarrow> exn option \<times> world" where
  "run_stage e a w = stage (cwd w) (zip (arg_file a) (staged_names (arg_file a))) (entered e a w)"

definition sandbox_files :: "env \<Rightarrow> world \<Rightarrow> string list" where
  "sandbox_files e w = filter (in_dir (mkdtemp e)) (map fst (files w))"

text \<open>
  The world in which the compiler passes start once the staging loop has completed: the
  staged world with the document written and logged (lines 69 to 71).
\<close>

definition compile_start :: "env \<Rightarrow> args \<Rightarrow> world \<Rightarrow> world" where
  "compile_start e a w =
     logging_debug
       (''LaTeX code:'' @ [CHR 0x0A] @ buildlatex e (latexoptions e a) (staged_names (arg_file a)))
       (write_text e texfile (buildlatex e (latexoptions e a) (staged_names (arg_file a)))
          (snd (run_stage e a w)))"

text \<open>Reading a decimal string back, to tell the staged names apart.\<close>

definition is_digit :: "char \<Rightarrow> bool" where
  "is_digit c = (48 \<le> (of_char c :: nat) \<and> (of_char c :: nat) \<le> 57)"

definition digit_val :: "char \<Rightarrow> nat" where
  "digit_val c = of_char c - 48"

fun decimal :: "nat \<Rightarrow> string \<Rightarrow> nat" where
  "decimal acc [] = acc"
| "decimal acc (c # cs) = decimal (10 * acc + digit_val c) cs"

subsection \<open>A concrete run\<close>

text \<open>
  A compiler that always succeeds and leaves the PDF beside the document, a caller in
  \<^verbatim>\<open>/home/u\<close> with two source files, and the sandbox \<^verbatim>\<open>/tmp/t\<close>.
\<close>

definition ex_env :: env where
  "ex_env =
     \<lparr>latexoptions = (\<lambda>_. ''opts''), buildlatex = (\<lambda>_ _. ''doc''), mkdtemp = ''/tmp/t'',
      rmtree_fails = False,
      xelatex = (\<lambda>n cmd d fs. (0, AList.update (join d ''mintscript.pdf'') ''%PDF'' fs)),
      encode = (\<lambda>s. s), decode = Some, expand_tilde = (\<lambda>s. s)\<rparr>"

definition ex_world :: world where
  "ex_world =
     \<lparr>cwd = ''/home/u'',
      files = [(''/home/u/foo/bar.py'', ''x = 1''), (''/home/u/b.c'', ''int y;'')],
      dirs = [''/home/u'', ''/home/u/foo'', ''/tmp''],
      stdout = [], loglevel = WARNING, log = [], calls = []\<rparr>"

definition ex_args :: args where
  "ex_args = \<lparr>arg_file = [''foo/bar.py'', ''b.c''], arg_output = None, arg_quiet = False\<rparr>"

section \<open>Properties\<close>

subsection \<open>What each step leaves alone\<close>

lemma logging_error_fields [simp]:
  "cwd (logging_error m w) = cwd w" "files (logging_error m w) = files w"
  "dirs (logging_error m w) = dirs w" "stdout (logging_error m w) = stdout w"
  "calls (logging_error m w) = calls w" "loglevel (logging_error m w) = loglevel w"
  by (simp_all add: logging_error_def)

lemma logging_debug_fields [simp]:
  "cwd (logging_debug m w) = cwd w" "files (logging_debug m w) = files w"
  "dirs (logging_debug m w) = dirs w" "stdout (logging_debug m w) = stdout w"
  "calls (logging_debug m w) = calls w" "loglevel (logging_debug m w) = loglevel w"
  by (simp_all add: logging_debug_def)

lemma prologue_fields [simp]:
  "cwd (prologue e a w) = cwd w" "files (prologue e a w) = files w"
  "dirs (prologue e a w) = dirs w" "stdout (prologue e a w) = stdout w"
  "calls (prologue e a w) = calls w"
  by (simp_all add: prologue_def)

lemma make_tempdir_fields [simp]:
  "cwd (make_tempdir e w) = cwd w" "files (make_tempdir e w) = files w"
  "dirs (make_tempdir e w) = mkdtemp e # dirs w" "stdout (make_tempdir e w) = stdout w"
  "calls (make_tempdir e w) = calls w" "log (make_tempdir e w) = log w"
  "loglevel (make_tempdir e w) = loglevel w"
  by (simp_all add: make_tempdir_def)

lemma chdir_fields [simp]:
  "files (chdir d w) = files w" "dirs (chdir d w) = dirs w" "stdout (chdir d w) = stdout w"
  "calls (chdir d w) = calls w" "log (chdir d w) = log w" "loglevel (chdir d w) = loglevel w"
  by (simp_all add: chdir_def)

lemma copyfile_fields [simp]:
  "cwd (snd (copyfile s d w)) = cwd w" "dirs (snd (copyfile s d w)) = dirs w"
  "stdout (snd (copyfile s d w)) = stdout w" "calls (snd (copyfile s d w)) = calls w"
  "log (snd (copyfile s d w)) = log w" "loglevel (snd (copyfile s d w)) = loglevel w"
  by (simp_all add: copyfile_def Let_def split: option.splits)

lemma write_text_fields [simp]:
  "cwd (write_text e n t w) = cwd w" "dirs (write_text e n t w) = dirs w"
  "stdout (write_text e n t w) = stdout w" "calls (write_text e n t w) = calls w"
  "log (write_text e n t w) = log w" "loglevel (write_text e n t w) = loglevel w"
  by (simp_all add: write_text_def)

lemma subprocess_call_fields [simp]:
  "cwd (snd (subprocess_call e c w)) = cwd w" "dirs (snd (subprocess_call e c w)) = dirs w"
  "stdout (snd (subprocess_call e c w)) = stdout w" "log (snd (subprocess_call e c w)) = log w"
  "loglevel (snd (subprocess_call e c w)) = loglevel w"
  "calls (snd (subprocess_call e c w)) = calls w @ [(c, fst (subprocess_call e c w))]"
  by (simp_all add: subprocess_call_def case_prod_beta)

lemma stage_frame:
  "cwd (snd (stage c zs w)) = cwd w \<and> dirs (snd (stage c zs w)) = dirs w \<and>
   stdout (snd (stage c zs w)) = stdout w \<and> calls (snd (stage c zs w)) = calls w \<and>
   loglevel (snd (stage c zs w)) = loglevel w"
proof (induction zs arbitrary: w)
  case Nil
  show ?case by simp
next
  case (Cons z zs)
  obtain oldpath newpath where z: "z = (oldpath, newpath)" by (cases z)
  show ?case
  proof (cases "isfile w (join c oldpath)")
    case False
    then show ?thesis by (simp add: z)
  next
    case True
    obtain r w1 where cp: "copyfile (join c oldpath) newpath w = (r, w1)"
      by (cases "copyfile (join c oldpath) newpath w")
    have w1: "cwd w1 = cwd w" "dirs w1 = dirs w" "stdout w1 = stdout w" "calls w1 = calls w"
      "loglevel w1 = loglevel w"
      using copyfile_fields [of "join c oldpath" newpath w] by (simp_all add: cp)
    show ?thesis
    proof (cases r)
      case None
      then show ?thesis
        using Cons.IH [of "logging_debug (''Copied '' @ join c oldpath @ '' to '' @ newpath) w1"]
        by (simp add: z True cp w1)
    next
      case (Some x)
      then show ?thesis by (simp add: z True cp w1)
    qed
  qed
qed

lemma run_passes_frame:
  "cwd (snd (run_passes e n w)) = cwd w \<and> dirs (snd (run_passes e n w)) = dirs w \<and>
   stdout (snd (run_passes e n w)) = stdout w \<and>
   loglevel (snd (run_passes e n w)) = loglevel w"
proof (induction n arbitrary: w)
  case 0
  show ?case by simp
next
  case (Suc n)
  obtain st w1 where sc: "subprocess_call e commandline w = (st, w1)"
    by (cases "subprocess_call e commandline w")
  have w1: "cwd w1 = cwd w" "dirs w1 = dirs w" "stdout w1 = stdout w" "loglevel w1 = loglevel w"
    using subprocess_call_fields [of e commandline w] by (simp_all add: sc)
  show ?case using Suc.IH [of w1] by (simp add: sc w1)
qed

lemma deliver_frame:
  "cwd (snd (deliver e a c w)) = cwd w \<and> dirs (snd (deliver e a c w)) = dirs w \<and>
   calls (snd (deliver e a c w)) = calls w \<and> loglevel (snd (deliver e a c w)) = loglevel w"
  by (simp add: deliver_def Let_def stdout_buffer_write_def
       split: sum.splits list.splits pyobj.splits)

lemma finish_frame:
  "cwd (snd (finish e a c w)) = cwd w \<and> dirs (snd (finish e a c w)) = dirs w \<and>
   calls (snd (finish e a c w)) = calls w \<and> loglevel (snd (finish e a c w)) = loglevel w"
  by (simp add: finish_def deliver_frame)

lemma build_frame:
  "cwd (snd (build e a ns t c w)) = cwd w \<and> dirs (snd (build e a ns t c w)) = dirs w \<and>
   stdout (snd (build e a ns t c w)) = stdout w \<and>
   loglevel (snd (build e a ns t c w)) = loglevel w"
proof -
  obtain r w1 where st: "stage c (zip (arg_file a) ns) w = (r, w1)"
    by (cases "stage c (zip (arg_file a) ns) w")
  have w1: "cwd w1 = cwd w" "dirs w1 = dirs w" "stdout w1 = stdout w" "loglevel w1 = loglevel w"
    using stage_frame [of c "zip (arg_file a) ns" w] by (simp_all add: st)
  show ?thesis
    by (cases r) (simp_all add: build_def st w1 run_passes_frame)
qed

subsection \<open>The shape of a run\<close>

lemma scoped_eq:
  "scoped e a ns t c w =
     (case fst (build e a ns t c w) of
        Some x \<Rightarrow> build e a ns t c w
      | None \<Rightarrow> finish e a c (snd (build e a ns t c w)))"
  by (cases "build e a ns t c w") (simp add: scoped_def split: option.splits)

lemma run_scoped_eq:
  "run_scoped e a w =
     (case fst (run_build e a w) of
        Some x \<Rightarrow> run_build e a w
      | None \<Rightarrow> finish e a (cwd w) (snd (run_build e a w)))"
  unfolding run_scoped_def run_build_def by (rule scoped_eq)

lemma main_eq:
  "arg_file a \<noteq> [] \<Longrightarrow> main e a w = leave e (cwd w) (run_scoped e a w)"
  by (cases "arg_file a")
     (simp_all add: main_def tempdir_def cd_def leave_def run_scoped_def entered_def Let_def
        case_prod_beta split: option.splits)

lemma join_abs: "isabs p \<Longrightarrow> join d p = p"
  by (simp add: isabs_def join_def)

lemma leave_cwd: "isabs prevdir \<Longrightarrow> cwd (snd (leave e prevdir rw)) = prevdir"
  by (simp add: leave_def rmtree_def chdir_def join_abs split: prod.splits option.splits if_splits)

lemma leave_removed:
  "\<not> rmtree_fails e \<Longrightarrow> mkdtemp e \<notin> set (dirs (snd (leave e prevdir rw)))"
  "\<not> rmtree_fails e \<Longrightarrow> p \<in> fst ` set (files (snd (leave e prevdir rw))) \<Longrightarrow> \<not> in_dir (mkdtemp e) p"
  by (auto simp add: leave_def rmtree_def split: prod.splits option.splits if_splits)

lemma leave_outcome:
  "fst (leave e prevdir rw) = (if rmtree_fails e then Some OSError else fst rw)"
  by (simp add: leave_def rmtree_def)

lemma leave_fields:
  "stdout (snd (leave e p rw)) = stdout (snd rw)" "calls (snd (leave e p rw)) = calls (snd rw)"
  "log (snd (leave e p rw)) = log (snd rw)"
  by (simp_all add: leave_def rmtree_def)

lemma isabs_join: "isabs a \<Longrightarrow> isabs (join a b)"
  by (auto simp: isabs_def join_def)

lemma expanduser_abs: "isabs p \<Longrightarrow> expanduser e p = p"
  by (auto simp: isabs_def expanduser_def)

lemma entered_cwd: "isabs (mkdtemp e) \<Longrightarrow> cwd (entered e a w) = mkdtemp e"
  by (simp add: entered_def chdir_def expanduser_abs join_abs)

lemma run_build_cwd: "isabs (mkdtemp e) \<Longrightarrow> cwd (snd (run_build e a w)) = mkdtemp e"
  using build_frame [of e a _ _ "cwd w" "entered e a w"] by (simp add: run_build_def entered_cwd)

lemma map_of_filter_keep:
  "P k \<Longrightarrow> map_of (filter (\<lambda>(p, b). P p) xs) k = map_of xs k"
  by (induction xs) auto

lemma leave_files:
  "\<not> in_dir (mkdtemp e) p \<Longrightarrow> map_of (files (snd (leave e prevdir rw))) p = map_of (files (snd rw)) p"
  using map_of_filter_keep [of "\<lambda>q. \<not> in_dir (mkdtemp e) q" p "files (snd rw)"]
  by (simp add: leave_def rmtree_def)

lemma join_proper: "proper_dir d \<Longrightarrow> \<not> isabs n \<Longrightarrow> join d n = d @ ''/'' @ n"
  by (auto simp: proper_dir_def isabs_def join_def)

lemma in_dir_join: "proper_dir d \<Longrightarrow> \<not> isabs n \<Longrightarrow> in_dir d (join d n)"
  by (simp add: join_proper in_dir_def)

lemma pdffile_rel: "\<not> isabs pdffile" "\<not> isabs texfile"
  by (simp_all add: pdffile_def texfile_def isabs_def)

lemmas ex_defs = ex_env_def ex_world_def ex_args_def

subsection \<open>The sandbox is left on every path\<close>

text \<open>
  C3. A run that has at least one input file enters the sandbox. Whatever the outcome of
  the scoped region (normal completion, a staging failure, a compiler failure, a missing
  artifact, or any other exception), the working directory after the run is the one
  before it; and when the deletion itself does not fail, the sandbox directory is no
  longer among the directories and no file lies below it.
\<close>

theorem sandbox_released_on_every_path:
  assumes "arg_file a \<noteq> []" and "isabs (cwd w)" and "\<not> rmtree_fails e"
  shows "cwd (snd (main e a w)) = cwd w \<and>
         mkdtemp e \<notin> set (dirs (snd (main e a w))) \<and>
         (\<forall>p \<in> fst ` set (files (snd (main e a w))). \<not> in_dir (mkdtemp e) p)"
  using assms by (simp add: main_eq leave_cwd leave_removed)

theorem sandbox_released_on_every_path_witness:
  "arg_file ex_args \<noteq> [] \<and> isabs (cwd ex_world) \<and> \<not> rmtree_fails ex_env \<and>
   fst (main ex_env ex_args ex_world) = None \<and>
   cwd (snd (main ex_env ex_args ex_world)) = ''/home/u'' \<and>
   ''/tmp/t'' \<notin> set (dirs (snd (main ex_env ex_args ex_world))) \<and>
   list_all (\<lambda>p. \<not> in_dir ''/tmp/t'' p) (map fst (files (snd (main ex_env ex_args ex_world)))) \<and>
   fst (main ex_env (ex_args\<lparr>arg_file := [''nope.c'']\<rparr>) ex_world) = Some (SystemExit 1) \<and>
   cwd (snd (main ex_env (ex_args\<lparr>arg_file := [''nope.c'']\<rparr>) ex_world)) = ''/home/u'' \<and>
   ''/tmp/t'' \<notin> set (dirs (snd (main ex_env (ex_args\<lparr>arg_file := [''nope.c'']\<rparr>) ex_world))) \<and>
   fst (main (ex_env\<lparr>xelatex := (\<lambda>n c d fs. (2, fs))\<rparr>) ex_args ex_world) = Some (SystemExit 2) \<and>
   cwd (snd (main (ex_env\<lparr>xelatex := (\<lambda>n c d fs. (2, fs))\<rparr>) ex_args ex_world)) = ''/home/u'' \<and>
   ''/tmp/t'' \<notin> set (dirs (snd (main (ex_env\<lparr>xelatex := (\<lambda>n c d fs. (2, fs))\<rparr>) ex_args ex_world))) \<and>
   fst (main (ex_env\<lparr>xelatex := (\<lambda>n c d fs. (0, fs))\<rparr>) ex_args ex_world) = Some (SystemExit 1) \<and>
   cwd (snd (main (ex_env\<lparr>xelatex := (\<lambda>n c d fs. (0, fs))\<rparr>) ex_args ex_world)) = ''/home/u'' \<and>
   ''/tmp/t'' \<notin> set (dirs (snd (main (ex_env\<lparr>xelatex := (\<lambda>n c d fs. (0, fs))\<rparr>) ex_args ex_world)))"
proof -
  let ?e2 = "ex_env\<lparr>xelatex := (\<lambda>n c d fs. (2, fs))\<rparr>"
  let ?e0 = "ex_env\<lparr>xelatex := (\<lambda>n c d fs. (0, fs))\<rparr>"
  let ?a1 = "ex_args\<lparr>arg_file := [''nope.c'']\<rparr>"
  have a: "arg_file ex_args \<noteq> []" "arg_file ?a1 \<noteq> []" by (simp_all add: ex_args_def)
  have c: "isabs (cwd ex_world)" by code_simp
  have r: "\<not> rmtree_fails ex_env" "\<not> rmtree_fails ?e2" "\<not> rmtree_fails ?e0"
    by (simp_all add: ex_env_def)
  have o: "fst (main ex_env ex_args ex_world) = None"
    "fst (main ex_env ?a1 ex_world) = Some (SystemExit 1)"
    "fst (main ?e2 ex_args ex_world) = Some (SystemExit 2)"
    "fst (main ?e0 ex_args ex_world) = Some (SystemExit 1)"
    by code_simp+
  have v: "cwd ex_world = ''/home/u''" "mkdtemp ex_env = ''/tmp/t''"
    by (simp_all add: ex_world_def ex_env_def)
  show ?thesis
    using sandbox_released_on_every_path [OF a(1) c r(1)]
      sandbox_released_on_every_path [OF a(2) c r(1)]
      sandbox_released_on_every_path [OF a(1) c r(2)]
      sandbox_released_on_every_path [OF a(1) c r(3)]
      a(1) c r(1) o
    by (simp add: v list_all_iff)
qed

subsection \<open>The document's name is not a staged name\<close>

lemma staged_names_source: "n \<in> set (staged_names fs) \<Longrightarrow> hd n = CHR ''s''"
  by (auto simp: staged_names_def)

lemma texfile_not_staged: "texfile \<notin> set (staged_names fs)"
  using staged_names_source [of texfile fs] by (auto simp: texfile_def)

lemma stage_outcome:
  "fst (stage c zs w) \<in> {None, Some (SystemExit 1), Some FileNotFoundError, Some SameFileError}"
proof (induction zs arbitrary: w)
  case Nil
  show ?case by simp
next
  case (Cons z zs)
  obtain oldpath newpath where z: "z = (oldpath, newpath)" by (cases z)
  obtain r w1 where cp: "copyfile (join c oldpath) newpath w = (r, w1)"
    by (cases "copyfile (join c oldpath) newpath w")
  have r: "r \<in> {None, Some FileNotFoundError, Some SameFileError}"
    using cp by (auto simp: copyfile_def Let_def split: option.splits if_splits)
  show ?case
    using Cons.IH [of "logging_debug (''Copied '' @ join c oldpath @ '' to '' @ newpath) w1"] r
    by (cases r) (auto simp: z cp Let_def)
qed

lemma run_passes_outcome:
  "fst (run_passes e n w) = None \<or> (\<exists>s. fst (run_passes e n w) = Some (SystemExit s))"
proof (induction n arbitrary: w)
  case 0
  show ?case by simp
next
  case (Suc n)
  show ?case using Suc.IH [of "snd (subprocess_call e commandline w)"]
    by (simp add: case_prod_beta)
qed

lemma deliver_outcome: "fst (deliver e a c w) \<noteq> Some AssertionError"
  by (auto simp: deliver_def Let_def copyfile_def read_text_def stdout_buffer_write_def
      split: sum.splits list.splits option.splits pyobj.splits if_splits)

lemma build_outcome:
  "texfile \<notin> set ns \<Longrightarrow> fst (build e a ns t c w) \<noteq> Some AssertionError"
  using stage_outcome [of c "zip (arg_file a) ns" w]
    run_passes_outcome [of e 2 "logging_debug (''LaTeX code:'' @ [CHR 0x0A] @ t)
       (write_text e texfile t (snd (stage c (zip (arg_file a) ns) w)))"]
  by (cases "stage c (zip (arg_file a) ns) w") (auto simp: build_def split: option.splits)

text \<open>
  C9. For every list of input files, the fixed document name \<^verbatim>\<open>mintscript.tex\<close> is not
  among the staged names \<^verbatim>\<open>source<i><ext>\<close>, and no run of \<^verbatim>\<open>main\<close> ends with the
  \<^verbatim>\<open>AssertionError\<close> of the assertion before the document is written.
\<close>

theorem document_name_never_staged:
  "texfile \<notin> set (staged_names fs) \<and> fst (main e a w) \<noteq> Some AssertionError"
proof
  show "texfile \<notin> set (staged_names fs)" by (rule texfile_not_staged)
next
  show "fst (main e a w) \<noteq> Some AssertionError"
  proof (cases "arg_file a = []")
    case True
    then show ?thesis by (simp add: main_def)
  next
    case False
    have "fst (run_scoped e a w) \<noteq> Some AssertionError"
      using build_outcome [OF texfile_not_staged, of e a "arg_file a"
          "buildlatex e (latexoptions e a) (staged_names (arg_file a))" "cwd w" "entered e a w"]
        deliver_outcome [of e a "cwd w" "snd (run_build e a w)"]
      by (auto simp: run_scoped_eq run_build_def finish_def split: option.splits)
    then show ?thesis using False by (simp add: main_eq leave_outcome)
  qed
qed

subsection \<open>Delivery to standard output\<close>

lemma deliver_dash:
  assumes "arg_output a = Some ''-''"
  shows "stdout (snd (deliver e a c w)) = stdout w"
    and "fst (deliver e a c w) \<in> {Some FileNotFoundError, Some UnicodeDecodeError, Some TypeError}"
  using assms
  by (auto simp: deliver_def Let_def read_text_def stdout_buffer_write_def
      split: option.splits)

lemma stdout_dash_general:
  assumes "arg_output a = Some ''-''"
  shows "stdout (snd (main e a w)) = stdout w \<and> fst (main e a w) \<noteq> None"
proof (cases "arg_file a = []")
  case True
  then show ?thesis by (simp add: main_def)
next
  case False
  let ?b = "run_build e a w"
  have b: "stdout (snd ?b) = stdout w"
    using build_frame [of e a _ _ "cwd w" "entered e a w"]
    by (simp add: run_build_def entered_def)
  have "stdout (snd (run_scoped e a w)) = stdout w \<and> fst (run_scoped e a w) \<noteq> None"
    using deliver_dash [OF assms, of e "cwd w" "snd ?b"] b
    by (auto simp: run_scoped_eq finish_def split: option.splits)
  then show ?thesis using False by (simp add: main_eq leave_fields leave_outcome)
qed

text \<open>
  C1, evaluated. With the destination \<^verbatim>\<open>-\<close>, a compiler that succeeds and an artifact
  \<^verbatim>\<open>%PDF\<close> in the sandbox, \<^verbatim>\<open>open(pdffile).read()\<close> yields a \<^verbatim>\<open>str\<close>, the binary layer of the
  standard output refuses it with \<^verbatim>\<open>TypeError\<close>, and nothing has been written to the
  standard output when the run ends.
\<close>

theorem stdout_delivery_raises:
  "map_of (files (snd (run_build ex_env (ex_args\<lparr>arg_output := Some ''-''\<rparr>) ex_world)))
     ''/tmp/t/mintscript.pdf'' = Some ''%PDF'' \<and>
   main ex_env (ex_args\<lparr>arg_output := Some ''-''\<rparr>) ex_world =
     (Some TypeError,
      ex_world\<lparr>loglevel := DEBUG, log := [(DEBUG, ''opts''),
        (DEBUG, ''Copied /home/u/foo/bar.py to source0.py''),
        (DEBUG, ''Copied /home/u/b.c to source1.c''),
        (DEBUG, ''LaTeX code:'' @ [CHR 0x0A] @ ''doc''), (DEBUG, ''Output to -'')],
        calls := [(commandline, 0), (commandline, 0)]\<rparr>)"
  by code_simp

subsection \<open>A deletion that fails\<close>

text \<open>
  C2, as stated, fails. With a deletion that fails, a run whose scoped region completed
  ends with \<^verbatim>\<open>OSError\<close>, the log holds nothing beyond what the scoped region logged, and
  a run whose compiler exited with status 2 ends with \<^verbatim>\<open>OSError\<close> in place of
  \<^verbatim>\<open>SystemExit(2)\<close>, so with exit code 1.
\<close>

theorem teardown_failure_counterexample:
  "fst (run_scoped (ex_env\<lparr>rmtree_fails := True\<rparr>) ex_args ex_world) = None \<and>
   fst (main (ex_env\<lparr>rmtree_fails := True\<rparr>) ex_args ex_world) = Some OSError \<and>
   log (snd (main (ex_env\<lparr>rmtree_fails := True\<rparr>) ex_args ex_world)) =
     log (snd (run_scoped (ex_env\<lparr>rmtree_fails := True\<rparr>) ex_args ex_world)) \<and>
   fst (run_scoped (ex_env\<lparr>rmtree_fails := True, xelatex := (\<lambda>n c d fs. (2, fs))\<rparr>) ex_args ex_world)
     = Some (SystemExit 2) \<and>
   fst (main (ex_env\<lparr>rmtree_fails := True, xelatex := (\<lambda>n c d fs. (2, fs))\<rparr>) ex_args ex_world)
     = Some OSError \<and>
   exit_code
     (fst (main (ex_env\<lparr>rmtree_fails := True, xelatex := (\<lambda>n c d fs. (2, fs))\<rparr>) ex_args ex_world))
     = 1"
  by code_simp

text \<open>
  C2, amended. When the deletion of the sandbox fails, its exception is the outcome of
  the run whatever the scoped region did, no log record is written for it, and the
  working directory has been restored.
\<close>

theorem teardown_failure_propagates:
  assumes "arg_file a \<noteq> []" and "rmtree_fails e" and "isabs (cwd w)"
  shows "fst (main e a w) = Some OSError \<and>
         log (snd (main e a w)) = log (snd (run_scoped e a w)) \<and>
         cwd (snd (main e a w)) = cwd w"
  using assms by (simp add: main_eq leave_outcome leave_fields leave_cwd)

theorem teardown_failure_propagates_witness:
  "arg_file ex_args \<noteq> [] \<and> rmtree_fails (ex_env\<lparr>rmtree_fails := True\<rparr>) \<and> isabs (cwd ex_world) \<and>
   fst (main (ex_env\<lparr>rmtree_fails := True\<rparr>) ex_args ex_world) = Some OSError \<and>
   log (snd (main (ex_env\<lparr>rmtree_fails := True\<rparr>) ex_args ex_world)) =
     log (snd (run_scoped (ex_env\<lparr>rmtree_fails := True\<rparr>) ex_args ex_world)) \<and>
   cwd (snd (main (ex_env\<lparr>rmtree_fails := True\<rparr>) ex_args ex_world)) = ''/home/u''"
  using teardown_failure_propagates [of ex_args "ex_env\<lparr>rmtree_fails := True\<rparr>" ex_world]
  by (simp add: ex_args_def ex_world_def isabs_def)

subsection \<open>The default destination\<close>

lemma deliver_default:
  assumes out: "arg_output a = None \<or> arg_output a = Some []"
    and f: "arg_file a = f # fs"
    and pdf: "map_of (files w) (join (cwd w) pdffile) = Some pdf"
    and abs: "isabs c"
    and ne: "join (cwd w) pdffile \<noteq> join c (fst (splitext f) @ ''.pdf'')"
  shows "fst (deliver e a c w) = None"
    and "map_of (files (snd (deliver e a c w))) (join c (fst (splitext f) @ ''.pdf'')) = Some pdf"
proof -
  let ?out = "fst (splitext f) @ ''.pdf''"
  have nd: "?out \<noteq> ''-''" "?out \<noteq> []"
    by (auto simp: append_eq_Cons_conv)
  have d: "deliver e a c w = copyfile pdffile (join c ?out) (logging_debug (''Output to '' @ ?out) w)"
    using out f nd by (auto simp: deliver_def Let_def)
  have j: "join (cwd w) (join c ?out) = join c ?out"
    using abs by (simp add: join_abs isabs_join)
  show "fst (deliver e a c w) = None"
    using pdf ne by (simp add: d copyfile_def j Let_def)
  show "map_of (files (snd (deliver e a c w))) (join c ?out) = Some pdf"
    using pdf ne by (simp add: d copyfile_def j Let_def update_conv')
qed

lemma default_delivery:
  assumes out: "arg_output a = None \<or> arg_output a = Some []"
    and f: "arg_file a = f # fs"
    and b: "fst (run_build e a w) = None"
    and pdf: "map_of (files (snd (run_build e a w))) (join (mkdtemp e) pdffile) = Some pdf"
    and abs: "isabs (cwd w)" and sb: "proper_dir (mkdtemp e)"
    and outside: "\<not> in_dir (mkdtemp e) (join (cwd w) (fst (splitext f) @ ''.pdf''))"
  shows "fst (main e a w) = (if rmtree_fails e then Some OSError else None)"
    and "map_of (files (snd (main e a w))) (join (cwd w) (fst (splitext f) @ ''.pdf'')) = Some pdf"
proof -
  let ?wb = "snd (run_build e a w)"
  let ?dst = "join (cwd w) (fst (splitext f) @ ''.pdf'')"
  have sbabs: "isabs (mkdtemp e)" using sb by (simp add: proper_dir_def)
  have cw: "cwd ?wb = mkdtemp e" by (rule run_build_cwd [OF sbabs])
  have pdf': "map_of (files ?wb) (join (cwd ?wb) pdffile) = Some pdf" using pdf by (simp add: cw)
  have ne: "join (cwd ?wb) pdffile \<noteq> ?dst"
    using in_dir_join [OF sb pdffile_rel(1)] outside by (auto simp: cw)
  have sc: "run_scoped e a w = deliver e a (cwd w) ?wb"
    using b pdf' by (simp add: run_scoped_eq finish_def isfile_def)
  note dl = deliver_default [OF out f pdf' abs ne, of e]
  have ne0: "arg_file a \<noteq> []" using f by simp
  show "fst (main e a w) = (if rmtree_fails e then Some OSError else None)"
    using dl(1) by (simp add: main_eq [OF ne0] leave_outcome sc)
  show "map_of (files (snd (main e a w))) ?dst = Some pdf"
    using dl(2) outside by (simp add: main_eq [OF ne0] leave_files sc)
qed


text \<open>
  C8. With no output destination configured, once staging and both compiler passes have
  succeeded and the artifact exists, the artifact's bytes are copied to the first input
  file's path with its extension replaced by \<^verbatim>\<open>.pdf\<close>, joined to the working directory
  the caller had before the run (the sandbox is the working directory at that moment);
  \<^verbatim>\<open>foo/bar.py\<close> gives \<^verbatim>\<open>foo/bar.pdf\<close>.
\<close>

theorem default_destination:
  assumes "arg_output a = None" and "arg_file a = f # fs"
    and "fst (run_build e a w) = None"
    and "map_of (files (snd (run_build e a w))) (join (mkdtemp e) pdffile) = Some pdf"
    and "isabs (cwd w)" and "proper_dir (mkdtemp e)"
    and "\<not> in_dir (mkdtemp e) (join (cwd w) (fst (splitext f) @ ''.pdf''))"
  shows "fst (main e a w) = (if rmtree_fails e then Some OSError else None) \<and>
         map_of (files (snd (main e a w))) (join (cwd w) (fst (splitext f) @ ''.pdf'')) = Some pdf"
  using default_delivery [of a f fs e w pdf] assms by simp

theorem default_destination_witness:
  "arg_output ex_args = None \<and> arg_file ex_args = [''foo/bar.py'', ''b.c''] \<and>
   fst (run_build ex_env ex_args ex_world) = None \<and>
   map_of (files (snd (run_build ex_env ex_args ex_world))) ''/tmp/t/mintscript.pdf'' = Some ''%PDF'' \<and>
   isabs (cwd ex_world) \<and> proper_dir (mkdtemp ex_env) \<and>
   \<not> in_dir ''/tmp/t'' ''/home/u/foo/bar.pdf'' \<and>
   fst (splitext ''foo/bar.py'') @ ''.pdf'' = ''foo/bar.pdf'' \<and>
   fst (main ex_env ex_args ex_world) = None \<and>
   map_of (files (snd (main ex_env ex_args ex_world))) ''/home/u/foo/bar.pdf'' = Some ''%PDF''"
proof -
  have h1: "arg_output ex_args = None" by (simp add: ex_args_def)
  have h2: "arg_file ex_args = ''foo/bar.py'' # [''b.c'']" by (simp add: ex_args_def)
  have h3: "fst (run_build ex_env ex_args ex_world) = None" by code_simp
  have p: "join (mkdtemp ex_env) pdffile = ''/tmp/t/mintscript.pdf''" by code_simp
  have h4: "map_of (files (snd (run_build ex_env ex_args ex_world))) (join (mkdtemp ex_env) pdffile)
      = Some ''%PDF''" by code_simp
  have h5: "isabs (cwd ex_world)" by code_simp
  have h6: "proper_dir (mkdtemp ex_env)" by code_simp
  have d: "join (cwd ex_world) (fst (splitext ''foo/bar.py'') @ ''.pdf'') = ''/home/u/foo/bar.pdf''"
    by code_simp
  have s: "fst (splitext ''foo/bar.py'') @ ''.pdf'' = ''foo/bar.pdf''" by code_simp
  have m: "mkdtemp ex_env = ''/tmp/t''" by (simp add: ex_env_def)
  have h7: "\<not> in_dir (mkdtemp ex_env) (join (cwd ex_world) (fst (splitext ''foo/bar.py'') @ ''.pdf''))"
    by code_simp
  have r: "\<not> rmtree_fails ex_env" by (simp add: ex_env_def)
  have d': "join (cwd ex_world) ''foo/bar.pdf'' = ''/home/u/foo/bar.pdf''" by code_simp
  have p': "join ''/tmp/t'' pdffile = ''/tmp/t/mintscript.pdf''" by code_simp
  show ?thesis
    using default_destination [OF h1 h2 h3 h4 h5 h6 h7] h1 h2 h3 h4 h5 h6 h7 r
    by (simp add: s m d' p')
qed

lemma deliver_falsy: "arg_output a = Some [] \<Longrightarrow> deliver e a c v = deliver e (a\<lparr>arg_output := None\<rparr>) c v"
  by (simp add: deliver_def)

text \<open>
  C10. An output destination that is the empty string is treated as an absent one: the
  delivery step does what it does for \<^verbatim>\<open>None\<close>, and the artifact is copied to the default
  path derived from the first input file.
\<close>

theorem empty_output_is_absent:
  assumes "arg_output a = Some []" and "arg_file a = f # fs"
    and "fst (run_build e a w) = None"
    and "map_of (files (snd (run_build e a w))) (join (mkdtemp e) pdffile) = Some pdf"
    and "isabs (cwd w)" and "proper_dir (mkdtemp e)"
    and "\<not> in_dir (mkdtemp e) (join (cwd w) (fst (splitext f) @ ''.pdf''))"
  shows "deliver e a c v = deliver e (a\<lparr>arg_output := None\<rparr>) c v \<and>
         fst (main e a w) = (if rmtree_fails e then Some OSError else None) \<and>
         map_of (files (snd (main e a w))) (join (cwd w) (fst (splitext f) @ ''.pdf'')) = Some pdf"
  using default_delivery [of a f fs e w pdf] deliver_falsy [of a e c v] assms by simp

theorem empty_output_is_absent_witness:
  "arg_output (ex_args\<lparr>arg_output := Some []\<rparr>) = Some [] \<and>
   arg_file (ex_args\<lparr>arg_output := Some []\<rparr>) = [''foo/bar.py'', ''b.c''] \<and>
   fst (run_build ex_env (ex_args\<lparr>arg_output := Some []\<rparr>) ex_world) = None \<and>
   map_of (files (snd (run_build ex_env (ex_args\<lparr>arg_output := Some []\<rparr>) ex_world)))
     ''/tmp/t/mintscript.pdf'' = Some ''%PDF'' \<and>
   isabs (cwd ex_world) \<and> proper_dir (mkdtemp ex_env) \<and>
   \<not> in_dir ''/tmp/t'' ''/home/u/foo/bar.pdf'' \<and>
   deliver ex_env (ex_args\<lparr>arg_output := Some []\<rparr>) ''/home/u'' ex_world =
     deliver ex_env (ex_args\<lparr>arg_output := None\<rparr>) ''/home/u'' ex_world \<and>
   fst (main ex_env (ex_args\<lparr>arg_output := Some []\<rparr>) ex_world) = None \<and>
   map_of (files (snd (main ex_env (ex_args\<lparr>arg_output := Some []\<rparr>) ex_world)))
     ''/home/u/foo/bar.pdf'' = Some ''%PDF''"
proof -
  let ?a = "ex_args\<lparr>arg_output := Some []\<rparr>"
  have h1: "arg_output ?a = Some []" by simp
  have h2: "arg_file ?a = ''foo/bar.py'' # [''b.c'']" by (simp add: ex_args_def)
  have h3: "fst (run_build ex_env ?a ex_world) = None" by code_simp
  have h4: "map_of (files (snd (run_build ex_env ?a ex_world))) (join (mkdtemp ex_env) pdffile)
      = Some ''%PDF''" by code_simp
  have h5: "isabs (cwd ex_world)" by code_simp
  have h6: "proper_dir (mkdtemp ex_env)" by code_simp
  have h7: "\<not> in_dir (mkdtemp ex_env) (join (cwd ex_world) (fst (splitext ''foo/bar.py'') @ ''.pdf''))"
    by code_simp
  have s: "fst (splitext ''foo/bar.py'') @ ''.pdf'' = ''foo/bar.pdf''" by code_simp
  have m: "mkdtemp ex_env = ''/tmp/t''" by (simp add: ex_env_def)
  have r: "\<not> rmtree_fails ex_env" by (simp add: ex_env_def)
  have d': "join (cwd ex_world) ''foo/bar.pdf'' = ''/home/u/foo/bar.pdf''" by code_simp
  have p': "join ''/tmp/t'' pdffile = ''/tmp/t/mintscript.pdf''" by code_simp
  show ?thesis
    using empty_output_is_absent [OF h1 h2 h3 h4 h5 h6 h7, of "''/home/u''" ex_world]
      h2 h3 h4 h5 h6 h7 r
    by (simp add: s m d' p')
qed

subsection \<open>The compiler passes\<close>

lemma run_passes_two:
  "\<exists>sts. calls (snd (run_passes e 2 w)) = calls w @ map (Pair commandline) sts \<and>
     (sts = [0, 0] \<and> fst (run_passes e 2 w) = None \<or>
      (\<exists>s. s \<noteq> 0 \<and> fst (run_passes e 2 w) = Some (SystemExit s) \<and> (sts = [s] \<or> sts = [0, s])))"
proof -
  obtain s1 w1 where c1: "subprocess_call e commandline w = (s1, w1)"
    by (cases "subprocess_call e commandline w")
  obtain s2 w2 where c2: "subprocess_call e commandline w1 = (s2, w2)"
    by (cases "subprocess_call e commandline w1")
  have k1: "calls w1 = calls w @ [(commandline, s1)]"
    using subprocess_call_fields(6) [of e commandline w] by (simp add: c1)
  have k2: "calls w2 = calls w @ [(commandline, s1), (commandline, s2)]"
    using subprocess_call_fields(6) [of e commandline w1] by (simp add: c2 k1)
  have two: "(2::nat) = Suc (Suc 0)" by simp
  show ?thesis
  proof (cases "s1 = 0")
    case False
    then have "calls (snd (run_passes e 2 w)) = calls w @ map (Pair commandline) [s1]"
      and "fst (run_passes e 2 w) = Some (SystemExit s1)"
      by (simp_all add: two c1 k1)
    with False show ?thesis by blast
  next
    case True
    show ?thesis
    proof (cases "s2 = 0")
      case False
      then have "calls (snd (run_passes e 2 w)) = calls w @ map (Pair commandline) [0, s2]"
        and "fst (run_passes e 2 w) = Some (SystemExit s2)"
        using True by (simp_all add: two c1 c2 k2)
      with False show ?thesis by blast
    next
      case False2: True
      then have "calls (snd (run_passes e 2 w)) = calls w @ map (Pair commandline) [0, 0]"
        and "fst (run_passes e 2 w) = None"
        using True by (simp_all add: two c1 c2 k2)
      then show ?thesis by blast
    qed
  qed
qed

lemma build_calls:
  assumes "texfile \<notin> set ns"
  shows "\<exists>sts. calls (snd (build e a ns t c w)) = calls w @ map (Pair commandline) sts \<and>
     (sts = [] \<and> fst (build e a ns t c w) \<noteq> None \<or>
      sts = [0, 0] \<and> fst (build e a ns t c w) = None \<or>
      (\<exists>s. s \<noteq> 0 \<and> fst (build e a ns t c w) = Some (SystemExit s) \<and> (sts = [s] \<or> sts = [0, s])))"
proof -
  obtain r w1 where st: "stage c (zip (arg_file a) ns) w = (r, w1)"
    by (cases "stage c (zip (arg_file a) ns) w")
  have k: "calls w1 = calls w" using stage_frame [of c "zip (arg_file a) ns" w] by (simp add: st)
  show ?thesis
  proof (cases r)
    case (Some x)
    then have "calls (snd (build e a ns t c w)) = calls w @ map (Pair commandline) []"
      and "fst (build e a ns t c w) \<noteq> None"
      by (simp_all add: build_def st k)
    then show ?thesis by blast
  next
    case None
    let ?w = "logging_debug (''LaTeX code:'' @ [CHR 0x0A] @ t) (write_text e texfile t w1)"
    have b: "build e a ns t c w = run_passes e 2 ?w"
      using None assms by (simp add: build_def st)
    have kw: "calls ?w = calls w" by (simp add: k)
    show ?thesis using run_passes_two [of e ?w] unfolding b kw by blast
  qed
qed

lemma run_build_calls:
  "\<exists>sts. calls (snd (run_build e a w)) = calls w @ map (Pair commandline) sts \<and>
     (sts = [] \<and> fst (run_build e a w) \<noteq> None \<or>
      sts = [0, 0] \<and> fst (run_build e a w) = None \<or>
      (\<exists>s. s \<noteq> 0 \<and> fst (run_build e a w) = Some (SystemExit s) \<and> (sts = [s] \<or> sts = [0, s])))"
proof -
  have ke: "calls (entered e a w) = calls w" by (simp add: entered_def)
  show ?thesis
    using build_calls [OF texfile_not_staged, of e a "arg_file a" _ "cwd w" "entered e a w"]
    unfolding run_build_def ke by blast
qed

lemma main_calls_eq:
  assumes "arg_file a \<noteq> []"
  shows "calls (snd (main e a w)) = calls (snd (run_build e a w))"
proof -
  have "calls (snd (run_scoped e a w)) = calls (snd (run_build e a w))"
    by (simp add: run_scoped_eq finish_frame split: option.splits)
  then show ?thesis by (simp add: main_eq [OF assms] leave_fields)
qed

lemma run_scoped_failed:
  "fst (run_build e a w) \<noteq> None \<Longrightarrow> run_scoped e a w = run_build e a w"
  by (auto simp: run_scoped_eq split: option.splits)

lemma statuses_cases:
  assumes "arg_file a \<noteq> []"
  shows "calls (snd (main e a w)) = calls w @ map (Pair commandline) (statuses e a w) \<and>
     (statuses e a w = [] \<and> fst (run_build e a w) \<noteq> None \<or>
      statuses e a w = [0, 0] \<and> fst (run_build e a w) = None \<or>
      (\<exists>s. s \<noteq> 0 \<and> fst (run_build e a w) = Some (SystemExit s) \<and>
           (statuses e a w = [s] \<or> statuses e a w = [0, s])))"
proof -
  obtain sts where k: "calls (snd (run_build e a w)) = calls w @ map (Pair commandline) sts"
    and alt: "sts = [] \<and> fst (run_build e a w) \<noteq> None \<or>
      sts = [0, 0] \<and> fst (run_build e a w) = None \<or>
      (\<exists>s. s \<noteq> 0 \<and> fst (run_build e a w) = Some (SystemExit s) \<and> (sts = [s] \<or> sts = [0, s]))"
    using run_build_calls [of e a w] by blast
  have st: "statuses e a w = sts"
    by (simp add: statuses_def main_calls_eq [OF assms] k comp_def)
  show ?thesis unfolding st using k alt by (simp add: main_calls_eq [OF assms])
qed

text \<open>
  C4, as stated, fails. A compiler killed by signal 9 gives the status \<open>-9\<close> and the
  process exits with code 247; and with a deletion of the sandbox that fails, a compiler
  status of 2 ends in the exit code 1.
\<close>

theorem compiler_status_counterexample:
  "statuses (ex_env\<lparr>xelatex := (\<lambda>n c d fs. (- 9, fs))\<rparr>) ex_args ex_world = [- 9] \<and>
   fst (main (ex_env\<lparr>xelatex := (\<lambda>n c d fs. (- 9, fs))\<rparr>) ex_args ex_world)
     = Some (SystemExit (- 9)) \<and>
   exit_code (fst (main (ex_env\<lparr>xelatex := (\<lambda>n c d fs. (- 9, fs))\<rparr>) ex_args ex_world)) = 247 \<and>
   statuses (ex_env\<lparr>rmtree_fails := True, xelatex := (\<lambda>n c d fs. (2, fs))\<rparr>) ex_args ex_world
     = [2] \<and>
   fst (main (ex_env\<lparr>rmtree_fails := True, xelatex := (\<lambda>n c d fs. (2, fs))\<rparr>) ex_args ex_world)
     = Some OSError \<and>
   exit_code
     (fst (main (ex_env\<lparr>rmtree_fails := True, xelatex := (\<lambda>n c d fs. (2, fs))\<rparr>) ex_args ex_world))
     = 1"
  by code_simp

text \<open>
  C4, amended. When the scoped region completes, the compiler has been invoked exactly
  twice, both times with status zero; every invocation is the fixed command line; an
  invocation that returns a non-zero status is the last one, and the scoped region ends
  with \<^verbatim>\<open>sys.exit\<close> of that status. When the deletion of the sandbox succeeds, that is the
  outcome of the run and the exit code is the status reduced to its low eight bits (the
  status itself from 1 to 255); when the deletion fails, its exception is the outcome
  and the exit code is 1.
\<close>

theorem compiler_passes_stop_at_failure:
  assumes "arg_file a \<noteq> []"
  shows "(fst (run_scoped e a w) = None \<longrightarrow> statuses e a w = [0, 0]) \<and>
         (fst (main e a w) = None \<longrightarrow> statuses e a w = [0, 0]) \<and>
         calls (snd (main e a w)) = calls w @ map (Pair commandline) (statuses e a w) \<and>
         length (statuses e a w) \<le> 2 \<and>
         (\<forall>i < length (statuses e a w). statuses e a w ! i \<noteq> 0 \<longrightarrow>
            Suc i = length (statuses e a w) \<and>
            fst (run_scoped e a w) = Some (SystemExit (statuses e a w ! i)) \<and>
            fst (main e a w) =
              Some (if rmtree_fails e then OSError else SystemExit (statuses e a w ! i)) \<and>
            exit_code (fst (main e a w)) =
              (if rmtree_fails e then 1 else statuses e a w ! i mod 256) \<and>
            (\<not> rmtree_fails e \<and> 0 < statuses e a w ! i \<and> statuses e a w ! i < 256 \<longrightarrow>
               exit_code (fst (main e a w)) = statuses e a w ! i))"
proof -
  have o: "fst (main e a w) = (if rmtree_fails e then Some OSError else fst (run_scoped e a w))"
    using assms by (simp add: main_eq leave_outcome)
  have f: "fst (run_build e a w) \<noteq> None \<Longrightarrow> fst (run_scoped e a w) = fst (run_build e a w)"
    by (simp add: run_scoped_failed)
  have n: "fst (run_scoped e a w) = None \<Longrightarrow> fst (run_build e a w) = None"
    using f by force
  show ?thesis
    using statuses_cases [OF assms(1), of e w] f n o by (auto simp: less_Suc_eq)
qed

theorem compiler_passes_stop_at_failure_witness:
  "arg_file ex_args \<noteq> [] \<and>
   fst (main ex_env ex_args ex_world) = None \<and> statuses ex_env ex_args ex_world = [0, 0] \<and>
   statuses (ex_env\<lparr>xelatex := (\<lambda>n c d fs. (if n = 0 then 0 else 3, fs))\<rparr>) ex_args ex_world = [0, 3] \<and>
   fst (main (ex_env\<lparr>xelatex := (\<lambda>n c d fs. (if n = 0 then 0 else 3, fs))\<rparr>) ex_args ex_world)
     = Some (SystemExit 3) \<and>
   exit_code (fst (main (ex_env\<lparr>xelatex := (\<lambda>n c d fs. (if n = 0 then 0 else 3, fs))\<rparr>) ex_args ex_world))
     = 3 \<and>
   statuses (ex_env\<lparr>xelatex := (\<lambda>n c d fs. (2, fs))\<rparr>) ex_args ex_world = [2] \<and>
   exit_code (fst (main (ex_env\<lparr>xelatex := (\<lambda>n c d fs. (2, fs))\<rparr>) ex_args ex_world)) = 2 \<and>
   statuses (ex_env\<lparr>rmtree_fails := True, xelatex := (\<lambda>n c d fs. (2, fs))\<rparr>) ex_args ex_world = [2] \<and>
   fst (run_scoped (ex_env\<lparr>rmtree_fails := True, xelatex := (\<lambda>n c d fs. (2, fs))\<rparr>) ex_args ex_world)
     = Some (SystemExit 2) \<and>
   fst (main (ex_env\<lparr>rmtree_fails := True, xelatex := (\<lambda>n c d fs. (2, fs))\<rparr>) ex_args ex_world)
     = Some OSError"
proof -
  let ?e3 = "ex_env\<lparr>xelatex := (\<lambda>n c d fs. (if n = 0 then 0 else 3, fs))\<rparr>"
  let ?e2 = "ex_env\<lparr>xelatex := (\<lambda>n c d fs. (2, fs))\<rparr>"
  let ?ef = "ex_env\<lparr>rmtree_fails := True, xelatex := (\<lambda>n c d fs. (2, fs))\<rparr>"
  have h1: "arg_file ex_args \<noteq> []" by (simp add: ex_args_def)
  have h2: "\<not> rmtree_fails ex_env" "\<not> rmtree_fails ?e3" "\<not> rmtree_fails ?e2" "rmtree_fails ?ef"
    by (simp_all add: ex_env_def)
  have m: "fst (main ex_env ex_args ex_world) = None" by code_simp
  have s3: "statuses ?e3 ex_args ex_world = [0, 3]" by code_simp
  have s2: "statuses ?e2 ex_args ex_world = [2]" by code_simp
  have sf: "statuses ?ef ex_args ex_world = [2]" by code_simp
  have a: "statuses ex_env ex_args ex_world = [0, 0]"
    using compiler_passes_stop_at_failure [OF h1, of ex_env ex_world] m by simp
  have b: "fst (main ?e3 ex_args ex_world) = Some (SystemExit 3)"
    "exit_code (fst (main ?e3 ex_args ex_world)) = 3"
    using compiler_passes_stop_at_failure [OF h1, of ?e3 ex_world] h2(2)
    by (auto simp: s3 less_Suc_eq)
  have c: "exit_code (fst (main ?e2 ex_args ex_world)) = 2"
    using compiler_passes_stop_at_failure [OF h1, of ?e2 ex_world] h2(3)
    by (auto simp: s2 less_Suc_eq)
  have d: "fst (run_scoped ?ef ex_args ex_world) = Some (SystemExit 2)"
    "fst (main ?ef ex_args ex_world) = Some OSError"
    using compiler_passes_stop_at_failure [OF h1, of ?ef ex_world] h2(4)
    by (auto simp: sf less_Suc_eq)
  show ?thesis using h1 m a s3 b s2 c sf d by simp
qed

subsection \<open>A missing artifact\<close>

lemma log_error: "log (logging_error m w) = log w @ [(ERROR, m)]"
  by (cases "loglevel w") (simp_all add: logging_error_def)

text \<open>
  C5. When both compiler passes returned status zero and the sandbox holds no
  \<^verbatim>\<open>mintscript.pdf\<close> after them, the exit code of the run is 1, the error is logged, the
  standard output is as before the run, and every file outside the sandbox is as the
  compiler passes left it: nothing is delivered.
\<close>

theorem missing_artifact_is_fatal:
  assumes "arg_file a \<noteq> []" and "statuses e a w = [0, 0]"
    and "map_of (files (snd (run_build e a w))) (join (mkdtemp e) pdffile) = None"
    and "isabs (mkdtemp e)"
  shows "exit_code (fst (main e a w)) = 1 \<and>
         fst (main e a w) = Some (if rmtree_fails e then OSError else SystemExit 1) \<and>
         stdout (snd (main e a w)) = stdout w \<and>
         (\<forall>p. \<not> in_dir (mkdtemp e) p \<longrightarrow>
            map_of (files (snd (main e a w))) p = map_of (files (snd (run_build e a w))) p) \<and>
         log (snd (main e a w)) = log (snd (run_build e a w)) @
           [(ERROR, ''xelatex completed but mintscript.pdf not found in output'')]"
proof -
  let ?wb = "snd (run_build e a w)"
  have b: "fst (run_build e a w) = None"
    using statuses_cases [OF assms(1), of e w] assms(2) by auto
  have cw: "cwd ?wb = mkdtemp e" by (rule run_build_cwd [OF assms(4)])
  have nf: "\<not> isfile ?wb pdffile" using assms(3) by (simp add: isfile_def cw)
  have sc: "run_scoped e a w =
      (Some (SystemExit 1),
       logging_error (''xelatex completed but '' @ pdffile @ '' not found in output'') ?wb)"
    using b nf by (simp add: run_scoped_eq finish_def)
  have so: "stdout ?wb = stdout w"
    using build_frame [of e a _ _ "cwd w" "entered e a w"]
    by (simp add: run_build_def entered_def)
  have msg: "pdffile = ''mintscript.pdf''"
    by (simp add: pdffile_def texfile_def)
  show ?thesis
    using assms(1)
    by (simp add: main_eq leave_outcome leave_fields leave_files sc so log_error msg)
qed


theorem missing_artifact_is_fatal_witness:
  "arg_file ex_args \<noteq> [] \<and>
   statuses (ex_env\<lparr>xelatex := (\<lambda>n c d fs. (0, fs))\<rparr>) ex_args ex_world = [0, 0] \<and>
   map_of (files (snd (run_build (ex_env\<lparr>xelatex := (\<lambda>n c d fs. (0, fs))\<rparr>) ex_args ex_world)))
     ''/tmp/t/mintscript.pdf'' = None \<and>
   isabs ''/tmp/t'' \<and>
   exit_code (fst (main (ex_env\<lparr>xelatex := (\<lambda>n c d fs. (0, fs))\<rparr>) ex_args ex_world)) = 1 \<and>
   stdout (snd (main (ex_env\<lparr>xelatex := (\<lambda>n c d fs. (0, fs))\<rparr>) ex_args ex_world)) = [] \<and>
   map_of (files (snd (main (ex_env\<lparr>xelatex := (\<lambda>n c d fs. (0, fs))\<rparr>) ex_args ex_world)))
     ''/home/u/foo/bar.pdf'' = None"
proof -
  let ?e = "ex_env\<lparr>xelatex := (\<lambda>n c d fs. (0, fs))\<rparr>"
  have h1: "arg_file ex_args \<noteq> []" by (simp add: ex_args_def)
  have h2: "statuses ?e ex_args ex_world = [0, 0]" by code_simp
  have m: "mkdtemp ?e = ''/tmp/t''" by (simp add: ex_env_def)
  have p: "join ''/tmp/t'' pdffile = ''/tmp/t/mintscript.pdf''" by code_simp
  have h3: "map_of (files (snd (run_build ?e ex_args ex_world))) (join (mkdtemp ?e) pdffile) = None"
    by code_simp
  have h4: "isabs (mkdtemp ?e)" by code_simp
  have o: "\<not> in_dir ''/tmp/t'' ''/home/u/foo/bar.pdf''" by code_simp
  have b: "map_of (files (snd (run_build ?e ex_args ex_world))) ''/home/u/foo/bar.pdf'' = None"
    by code_simp
  have so: "stdout ex_world = []" by (simp add: ex_world_def)
  show ?thesis
    using missing_artifact_is_fatal [OF h1 h2 h3 h4] h1 h2 h3 h4 o b so
    by (simp add: m p)
qed

subsection \<open>The staged names are pairwise different\<close>

lemma digit_char_val: "n < 10 \<Longrightarrow> digit_val (digit_char n) = n"
  by (simp add: digit_val_def digit_char_def)

lemma digit_char_is_digit: "n < 10 \<Longrightarrow> is_digit (digit_char n)"
  by (simp add: is_digit_def digit_char_def)

lemma decimal_append: "decimal acc (xs @ [c]) = 10 * decimal acc xs + digit_val c"
  by (induction xs arbitrary: acc) simp_all

lemma str_nat_small: "n < 10 \<Longrightarrow> str_nat n = [digit_char n]"
  by (subst str_nat.simps) simp

lemma str_nat_large: "\<not> n < 10 \<Longrightarrow> str_nat n = str_nat (n div 10) @ [digit_char (n mod 10)]"
  by (subst str_nat.simps) simp

lemma decimal_str_nat: "decimal 0 (str_nat n) = n"
proof (induction n rule: str_nat.induct)
  case (1 n)
  show ?case
  proof (cases "n < 10")
    case True
    then show ?thesis by (simp add: str_nat_small digit_char_val)
  next
    case False
    have ih: "decimal 0 (str_nat (n div 10)) = n div 10" using 1 False by simp
    have e: "str_nat n = str_nat (n div 10) @ [digit_char (n mod 10)]"
      using False by (rule str_nat_large)
    have d: "digit_val (digit_char (n mod 10)) = n mod 10"
      by (rule digit_char_val) simp
    have "decimal 0 (str_nat n) = 10 * (n div 10) + n mod 10"
      unfolding e decimal_append ih d ..
    then show ?thesis by simp
  qed
qed

lemma str_nat_inj:
  assumes "str_nat m = str_nat n"
  shows "m = n"
proof -
  have "decimal 0 (str_nat m) = decimal 0 (str_nat n)" by (simp only: assms)
  then show ?thesis by (simp only: decimal_str_nat)
qed

lemma str_nat_digits: "c \<in> set (str_nat n) \<Longrightarrow> is_digit c"
proof (induction n rule: str_nat.induct)
  case (1 n)
  show ?case
  proof (cases "n < 10")
    case True
    then show ?thesis using 1(2) by (simp add: str_nat_small digit_char_is_digit)
  next
    case False
    then show ?thesis
      using 1 by (auto simp: str_nat_large digit_char_is_digit)
  qed
qed

lemma dot_not_digit: "\<not> is_digit (CHR ''.'')"
  by (simp add: is_digit_def)


lemma rfind_from_range:
  "rfind_from xs c i found = found \<or>
   (\<exists>k < length xs. rfind_from xs c i found = i + int k \<and> xs ! k = c)"
proof (induction xs arbitrary: i found)
  case Nil
  show ?case by simp
next
  case (Cons x xs)
  let ?r = "rfind_from xs c (i + 1) (if x = c then i else found)"
  consider "?r = (if x = c then i else found)"
    | k where "k < length xs" "?r = i + 1 + int k" "xs ! k = c"
    using Cons [of "i + 1" "if x = c then i else found"] by blast
  then show ?case
  proof cases
    case 1
    show ?thesis
    proof (cases "x = c")
      case True
      then have "rfind_from (x # xs) c i found = i + int 0 \<and> (x # xs) ! 0 = c"
        using 1 by simp
      then show ?thesis by blast
    next
      case False
      then show ?thesis using 1 by simp
    qed
  next
    case 2
    then have "Suc k < length (x # xs) \<and> rfind_from (x # xs) c i found = i + int (Suc k) \<and>
        (x # xs) ! Suc k = c"
      by simp
    then show ?thesis by blast
  qed
qed

lemma rfind_range:
  "rfind p c = - 1 \<or> (0 \<le> rfind p c \<and> nat (rfind p c) < length p \<and> p ! nat (rfind p c) = c)"
  using rfind_from_range [of p c 0 "- 1"] by (auto simp: rfind_def)

lemma splitext_ext: "snd (splitext f) = [] \<or> hd (snd (splitext f)) = CHR ''.''"
  using rfind_range [of f "CHR ''.''"] rfind_range [of f "CHR ''/''"]
  by (auto simp: splitext_def Let_def hd_drop_conv_nth)

lemma takeWhile_all_then_stop:
  "\<forall>c \<in> set xs. P c \<Longrightarrow> e = [] \<or> \<not> P (hd e) \<Longrightarrow> takeWhile P (xs @ e) = xs"
  by (cases e) auto

lemma staged_name_inj:
  assumes "''source'' @ str_nat i @ snd (splitext f) = ''source'' @ str_nat j @ snd (splitext g)"
  shows "i = j"
proof -
  have d: "\<And>n. \<forall>c \<in> set (str_nat n). is_digit c" by (simp add: str_nat_digits)
  have e: "\<And>h. snd (splitext h) = [] \<or> \<not> is_digit (hd (snd (splitext h)))"
    using splitext_ext dot_not_digit by metis
  have "takeWhile is_digit (str_nat i @ snd (splitext f)) =
        takeWhile is_digit (str_nat j @ snd (splitext g))"
    using assms by simp
  then have "str_nat i = str_nat j"
    by (simp only: takeWhile_all_then_stop [OF d e])
  then show ?thesis by (rule str_nat_inj)
qed

lemma staged_names_length: "length (staged_names fs) = length fs"
  by (simp add: staged_names_def)

lemma staged_names_nth:
  "i < length fs \<Longrightarrow> staged_names fs ! i = ''source'' @ str_nat i @ snd (splitext (fs ! i))"
  by (simp add: staged_names_def nth_enumerate_eq)

lemma staged_names_distinct: "distinct (staged_names fs)"
proof -
  have "i = j" if "i < length fs" "j < length fs" "staged_names fs ! i = staged_names fs ! j" for i j
    using that staged_name_inj [of i "fs ! i" j "fs ! j"] by (simp only: staged_names_nth)
  then show ?thesis
    by (auto simp: distinct_conv_nth staged_names_length)
qed

lemma staged_names_rel: "n \<in> set (staged_names fs) \<Longrightarrow> \<not> isabs n"
  using staged_names_source [of n fs] by (auto simp: isabs_def)


subsection \<open>The staging loop\<close>

lemma join_rel_inj:
  "proper_dir d \<Longrightarrow> \<not> isabs m \<Longrightarrow> \<not> isabs n \<Longrightarrow> join d m = join d n \<Longrightarrow> m = n"
  by (simp add: join_proper)

lemma stage_step:
  assumes c: "isabs c" and d: "proper_dir (cwd w)" and n: "\<not> isabs n"
    and f: "map_of (files w) (join c f) = Some b" and o: "\<not> in_dir (cwd w) (join c f)"
  shows "stage c ((f, n) # rest) w =
         stage c rest (logging_debug (''Copied '' @ join c f @ '' to '' @ n)
           (w\<lparr>files := AList.update (join (cwd w) n) b (files w)\<rparr>))"
proof -
  have a: "join (cwd w) (join c f) = join c f" using c by (simp add: join_abs isabs_join)
  have ne: "join c f \<noteq> join (cwd w) n" using in_dir_join [OF d n] o by auto
  show ?thesis using f ne by (simp add: Let_def isfile_def copyfile_def a)
qed

lemma stage_present:
  assumes "length fs = length ns" and "isabs c" and "proper_dir (cwd w)"
    and "\<forall>n \<in> set ns. \<not> isabs n" and "distinct ns"
    and "\<forall>f \<in> set fs. map_of (files w) (join c f) \<noteq> None"
    and "\<forall>f \<in> set fs. \<not> in_dir (cwd w) (join c f)"
  shows "fst (stage c (zip fs ns) w) = None \<and>
         (\<forall>p. p \<notin> join (cwd w) ` set ns \<longrightarrow>
            map_of (files (snd (stage c (zip fs ns) w))) p = map_of (files w) p) \<and>
         (\<forall>i < length ns. map_of (files (snd (stage c (zip fs ns) w))) (join (cwd w) (ns ! i)) =
            map_of (files w) (join c (fs ! i)))"
  using assms
proof (induction fs ns arbitrary: w rule: list_induct2)
  case Nil
  show ?case by simp
next
  case (Cons f fs n ns)
  obtain b where b: "map_of (files w) (join c f) = Some b" using Cons.prems(5) by auto
  let ?dst = "join (cwd w) n"
  define w1 where "w1 = logging_debug (''Copied '' @ join c f @ '' to '' @ n)
           (w\<lparr>files := AList.update ?dst b (files w)\<rparr>)"
  have n: "\<not> isabs n" using Cons.prems(3) by simp
  have o: "\<not> in_dir (cwd w) (join c f)" using Cons.prems(6) by simp
  have st: "stage c ((f, n) # zip fs ns) w = stage c (zip fs ns) w1"
    unfolding w1_def by (rule stage_step [OF Cons.prems(1) Cons.prems(2) n b o])
  have cw: "cwd w1 = cwd w" by (simp add: w1_def)
  have fw: "map_of (files w1) = (map_of (files w))(?dst \<mapsto> b)"
    by (simp add: w1_def update_conv')
  have ind: "in_dir (cwd w) ?dst" by (rule in_dir_join [OF Cons.prems(2) n])
  have same: "map_of (files w1) (join c g) = map_of (files w) (join c g)" if "g \<in> set (f # fs)" for g
  proof -
    have "\<not> in_dir (cwd w) (join c g)" using that Cons.prems(6) by blast
    then have "join c g \<noteq> ?dst" using ind by auto
    then show ?thesis by (simp add: fw)
  qed
  have ih: "fst (stage c (zip fs ns) w1) = None \<and>
         (\<forall>p. p \<notin> join (cwd w) ` set ns \<longrightarrow>
            map_of (files (snd (stage c (zip fs ns) w1))) p = map_of (files w1) p) \<and>
         (\<forall>i < length ns. map_of (files (snd (stage c (zip fs ns) w1))) (join (cwd w) (ns ! i)) =
            map_of (files w1) (join c (fs ! i)))"
  proof -
    have 1: "proper_dir (cwd w1)" using Cons.prems(2) by (simp add: cw)
    have 2: "\<forall>n \<in> set ns. \<not> isabs n" using Cons.prems(3) by simp
    have 3: "distinct ns" using Cons.prems(4) by simp
    have 4: "\<forall>f \<in> set fs. map_of (files w1) (join c f) \<noteq> None"
      using same Cons.prems(5) by simp
    have 5: "\<forall>f \<in> set fs. \<not> in_dir (cwd w1) (join c f)" using Cons.prems(6) by (simp add: cw)
    from Cons.IH [OF Cons.prems(1) 1 2 3 4 5] show ?thesis unfolding cw .
  qed
  have notin: "?dst \<notin> join (cwd w) ` set ns"
  proof
    assume "?dst \<in> join (cwd w) ` set ns"
    then obtain m where m: "m \<in> set ns" "join (cwd w) n = join (cwd w) m" by auto
    then have "n = m" using join_rel_inj [OF Cons.prems(2) n _ m(2)] Cons.prems(3) by simp
    then show False using m(1) Cons.prems(4) by simp
  qed
  have A: "fst (stage c (zip (f # fs) (n # ns)) w) = None" using ih by (simp add: st del: stage.simps)
  have B: "map_of (files (snd (stage c (zip (f # fs) (n # ns)) w))) p = map_of (files w) p"
    if "p \<notin> join (cwd w) ` set (n # ns)" for p
  proof -
    have "p \<noteq> ?dst" "p \<notin> join (cwd w) ` set ns" using that by auto
    then show ?thesis using ih by (simp add: st fw del: stage.simps)
  qed
  have C: "map_of (files (snd (stage c (zip (f # fs) (n # ns)) w))) (join (cwd w) ((n # ns) ! i)) =
            map_of (files w) (join c ((f # fs) ! i))" if "i < length (n # ns)" for i
  proof (cases i)
    case 0
    have "map_of (files (snd (stage c (zip fs ns) w1))) ?dst = map_of (files w1) ?dst"
      using ih notin by blast
    then show ?thesis using 0 b by (simp add: st fw del: stage.simps)
  next
    case (Suc k)
    then have k: "k < length ns" using that by simp
    have "fs ! k \<in> set (f # fs)" using k Cons.hyps by simp
    then have "map_of (files w1) (join c (fs ! k)) = map_of (files w) (join c (fs ! k))"
      by (rule same)
    then show ?thesis using ih k Suc by (simp add: st del: stage.simps)
  qed
  show ?case using A B C by blast
qed


lemma stage_missing:
  assumes "length fs = length ns" and "isabs c" and "proper_dir (cwd w)"
    and "\<forall>n \<in> set ns. \<not> isabs n"
    and "\<exists>f \<in> set fs. map_of (files w) (join c f) = None"
    and "\<forall>f \<in> set fs. \<not> in_dir (cwd w) (join c f)"
  shows "\<exists>k < length fs. map_of (files w) (join c (fs ! k)) = None \<and>
           (\<forall>j < k. map_of (files w) (join c (fs ! j)) \<noteq> None) \<and>
           fst (stage c (zip fs ns) w) = Some (SystemExit 1) \<and>
           (ERROR, ''Cannot read file '' @ join c (fs ! k)) \<in> set (log (snd (stage c (zip fs ns) w)))"
  using assms
proof (induction fs ns arbitrary: w rule: list_induct2)
  case Nil
  then show ?case by simp
next
  case (Cons f fs n ns)
  have a: "join (cwd w) (join c f) = join c f"
    using Cons.prems(1) by (simp add: join_abs isabs_join)
  show ?case
  proof (cases "map_of (files w) (join c f)")
    case None
    then have "stage c ((f, n) # zip fs ns) w =
        (Some (SystemExit 1), logging_error (''Cannot read file '' @ join c f) w)"
      by (simp add: Let_def isfile_def a)
    then have "0 < length (f # fs) \<and> map_of (files w) (join c ((f # fs) ! 0)) = None \<and>
           (\<forall>j < 0. map_of (files w) (join c ((f # fs) ! j)) \<noteq> None) \<and>
           fst (stage c (zip (f # fs) (n # ns)) w) = Some (SystemExit 1) \<and>
           (ERROR, ''Cannot read file '' @ join c ((f # fs) ! 0)) \<in>
             set (log (snd (stage c (zip (f # fs) (n # ns)) w)))"
      using None by (simp add: log_error del: stage.simps)
    then show ?thesis by blast
  next
    case (Some b)
    let ?dst = "join (cwd w) n"
    define w1 where "w1 = logging_debug (''Copied '' @ join c f @ '' to '' @ n)
           (w\<lparr>files := AList.update ?dst b (files w)\<rparr>)"
    have n: "\<not> isabs n" using Cons.prems(3) by simp
    have o: "\<not> in_dir (cwd w) (join c f)" using Cons.prems(5) by simp
    have st: "stage c ((f, n) # zip fs ns) w = stage c (zip fs ns) w1"
      unfolding w1_def by (rule stage_step [OF Cons.prems(1) Cons.prems(2) n Some o])
    have cw: "cwd w1 = cwd w" by (simp add: w1_def)
    have fw: "map_of (files w1) = (map_of (files w))(?dst \<mapsto> b)"
      by (simp add: w1_def update_conv')
    have ind: "in_dir (cwd w) ?dst" by (rule in_dir_join [OF Cons.prems(2) n])
    have same: "map_of (files w1) (join c g) = map_of (files w) (join c g)" if "g \<in> set (f # fs)" for g
    proof -
      have "\<not> in_dir (cwd w) (join c g)" using that Cons.prems(5) by blast
      then have "join c g \<noteq> ?dst" using ind by auto
      then show ?thesis by (simp add: fw)
    qed
    have 1: "proper_dir (cwd w1)" using Cons.prems(2) by (simp add: cw)
    have 2: "\<forall>n \<in> set ns. \<not> isabs n" using Cons.prems(3) by simp
    have 3: "\<exists>f \<in> set fs. map_of (files w1) (join c f) = None"
      using Cons.prems(4) Some same by auto
    have 4: "\<forall>f \<in> set fs. \<not> in_dir (cwd w1) (join c f)" using Cons.prems(5) by (simp add: cw)
    obtain k where k: "k < length fs" "map_of (files w1) (join c (fs ! k)) = None"
      "\<forall>j < k. map_of (files w1) (join c (fs ! j)) \<noteq> None"
      "fst (stage c (zip fs ns) w1) = Some (SystemExit 1)"
      "(ERROR, ''Cannot read file '' @ join c (fs ! k)) \<in> set (log (snd (stage c (zip fs ns) w1)))"
      using Cons.IH [OF Cons.prems(1) 1 2 3 4] by blast
    have in_fs: "fs ! j \<in> set (f # fs)" if "j < length fs" for j using that by simp
    have k2: "map_of (files w) (join c (fs ! k)) = None"
      using k(2) same [OF in_fs [OF k(1)]] by simp
    have k3: "map_of (files w) (join c ((f # fs) ! j)) \<noteq> None" if "j < Suc k" for j
    proof (cases j)
      case 0
      then show ?thesis using Some by simp
    next
      case (Suc i)
      then have i: "i < k" using that by simp
      then have "i < length fs" using k(1) by simp
      then have "map_of (files w1) (join c (fs ! i)) = map_of (files w) (join c (fs ! i))"
        using same [OF in_fs, of i] by simp
      moreover have "map_of (files w1) (join c (fs ! i)) \<noteq> None" using k(3) i by blast
      ultimately show ?thesis using Suc by simp
    qed
    have "Suc k < length (f # fs) \<and> map_of (files w) (join c ((f # fs) ! Suc k)) = None \<and>
           (\<forall>j < Suc k. map_of (files w) (join c ((f # fs) ! j)) \<noteq> None) \<and>
           fst (stage c (zip (f # fs) (n # ns)) w) = Some (SystemExit 1) \<and>
           (ERROR, ''Cannot read file '' @ join c ((f # fs) ! Suc k)) \<in>
             set (log (snd (stage c (zip (f # fs) (n # ns)) w)))"
      using k(1) k2 k3 k(4) k(5) by (simp add: st del: stage.simps)
    then show ?thesis by blast
  qed
qed


lemma build_stage_failed:
  "fst (stage c (zip (arg_file a) ns) w) = Some x \<Longrightarrow>
   build e a ns t c w = stage c (zip (arg_file a) ns) w"
  by (cases "stage c (zip (arg_file a) ns) w") (simp add: build_def)

lemma run_build_stage_failed:
  "fst (run_stage e a w) = Some x \<Longrightarrow> run_build e a w = run_stage e a w"
  unfolding run_build_def run_stage_def by (rule build_stage_failed)

lemma entered_files: "files (entered e a w) = files w"
  by (simp add: entered_def)

text \<open>
  C6. When some input path does not name an existing regular file (the sandbox being a
  fresh directory that no input path points into), the exit code of the run is 1, the
  compiler is never invoked, and the log holds the error naming the first such path,
  joined to the caller's working directory.
\<close>

theorem missing_input_is_fatal:
  assumes "isabs (cwd w)" and "proper_dir (mkdtemp e)"
    and "\<forall>f \<in> set (arg_file a). \<not> in_dir (mkdtemp e) (join (cwd w) f)"
    and "\<exists>f \<in> set (arg_file a). \<not> isfile w f"
  shows "exit_code (fst (main e a w)) = 1 \<and>
         fst (main e a w) = Some (if rmtree_fails e then OSError else SystemExit 1) \<and>
         calls (snd (main e a w)) = calls w \<and>
         (\<exists>k < length (arg_file a). \<not> isfile w (arg_file a ! k) \<and>
            (\<forall>j < k. isfile w (arg_file a ! j)) \<and>
            (ERROR, ''Cannot read file '' @ join (cwd w) (arg_file a ! k))
              \<in> set (log (snd (main e a w))))"
proof -
  let ?fs = "arg_file a" and ?ns = "staged_names (arg_file a)" and ?w = "entered e a w"
  have ne: "?fs \<noteq> []" using assms(4) by auto
  have sb: "isabs (mkdtemp e)" using assms(2) by (simp add: proper_dir_def)
  have cw: "cwd ?w = mkdtemp e" by (rule entered_cwd [OF sb])
  have 1: "length ?fs = length ?ns" by (simp add: staged_names_length)
  have 2: "proper_dir (cwd ?w)" using assms(2) by (simp add: cw)
  have 3: "\<forall>n \<in> set ?ns. \<not> isabs n" using staged_names_rel by blast
  have 4: "\<exists>f \<in> set ?fs. map_of (files ?w) (join (cwd w) f) = None"
    using assms(4) by (simp add: isfile_def entered_files)
  have 5: "\<forall>f \<in> set ?fs. \<not> in_dir (cwd ?w) (join (cwd w) f)" using assms(3) by (simp add: cw)
  obtain k where k: "k < length ?fs" "map_of (files ?w) (join (cwd w) (?fs ! k)) = None"
      "\<forall>j < k. map_of (files ?w) (join (cwd w) (?fs ! j)) \<noteq> None"
      "fst (run_stage e a w) = Some (SystemExit 1)"
      "(ERROR, ''Cannot read file '' @ join (cwd w) (?fs ! k)) \<in> set (log (snd (run_stage e a w)))"
    using stage_missing [OF 1 assms(1) 2 3 4 5] unfolding run_stage_def by blast
  have rb: "run_build e a w = run_stage e a w" by (rule run_build_stage_failed [OF k(4)])
  have rs: "run_scoped e a w = run_stage e a w"
    using run_scoped_failed [of e a w] k(4) by (simp add: rb)
  have kc: "calls (snd (run_stage e a w)) = calls w"
    using stage_frame [of "cwd w" "zip ?fs ?ns" ?w] by (simp add: run_stage_def entered_def)
  have m: "exit_code (fst (main e a w)) = 1"
    "fst (main e a w) = Some (if rmtree_fails e then OSError else SystemExit 1)"
    "calls (snd (main e a w)) = calls w"
    "log (snd (main e a w)) = log (snd (run_stage e a w))"
    using k(4) by (simp_all add: main_eq [OF ne] leave_outcome leave_fields rs kc)
  have "k < length ?fs \<and> \<not> isfile w (?fs ! k) \<and> (\<forall>j < k. isfile w (?fs ! j)) \<and>
      (ERROR, ''Cannot read file '' @ join (cwd w) (?fs ! k)) \<in> set (log (snd (main e a w)))"
    using k by (simp add: isfile_def entered_files m(4))
  then show ?thesis using m by blast
qed

theorem missing_input_is_fatal_witness:
  "isabs (cwd ex_world) \<and> proper_dir (mkdtemp ex_env) \<and>
   list_all (\<lambda>f. \<not> in_dir (mkdtemp ex_env) (join (cwd ex_world) f)) [''foo/bar.py'', ''nope.c''] \<and>
   isfile ex_world ''foo/bar.py'' \<and> \<not> isfile ex_world ''nope.c'' \<and>
   exit_code (fst (main ex_env (ex_args\<lparr>arg_file := [''foo/bar.py'', ''nope.c'']\<rparr>) ex_world)) = 1 \<and>
   calls (snd (main ex_env (ex_args\<lparr>arg_file := [''foo/bar.py'', ''nope.c'']\<rparr>) ex_world)) = [] \<and>
   (ERROR, ''Cannot read file /home/u/nope.c'')
     \<in> set (log (snd (main ex_env (ex_args\<lparr>arg_file := [''foo/bar.py'', ''nope.c'']\<rparr>) ex_world)))"
proof -
  let ?a = "ex_args\<lparr>arg_file := [''foo/bar.py'', ''nope.c'']\<rparr>"
  have fs: "arg_file ?a = [''foo/bar.py'', ''nope.c'']" by simp
  have h1: "isabs (cwd ex_world)" by code_simp
  have h2: "proper_dir (mkdtemp ex_env)" by code_simp
  have l3: "list_all (\<lambda>f. \<not> in_dir (mkdtemp ex_env) (join (cwd ex_world) f)) [''foo/bar.py'', ''nope.c'']"
    by code_simp
  have h3: "\<forall>f \<in> set (arg_file ?a). \<not> in_dir (mkdtemp ex_env) (join (cwd ex_world) f)"
    using l3 by (simp add: list_all_iff)
  have p0: "isfile ex_world ''foo/bar.py''" by code_simp
  have p1: "\<not> isfile ex_world ''nope.c''" by code_simp
  have h4: "\<exists>f \<in> set (arg_file ?a). \<not> isfile ex_world f" using p1 by simp
  have c0: "calls ex_world = []" by (simp add: ex_world_def)
  have msg: "''Cannot read file '' @ join (cwd ex_world) ''nope.c'' = ''Cannot read file /home/u/nope.c''"
    by code_simp
  note t = missing_input_is_fatal [OF h1 h2 h3 h4]
  from t obtain k where k: "k < length (arg_file ?a)" "\<not> isfile ex_world (arg_file ?a ! k)"
    "(ERROR, ''Cannot read file '' @ join (cwd ex_world) (arg_file ?a ! k))
       \<in> set (log (snd (main ex_env ?a ex_world)))"
    by blast
  have k1: "k = 1" using k(1) k(2) p0 by (cases k) simp_all
  have m: "''Cannot read file '' @ join (cwd ex_world) (arg_file ?a ! 1) =
      ''Cannot read file /home/u/nope.c''"
    by code_simp
  have "(ERROR, ''Cannot read file /home/u/nope.c'') \<in> set (log (snd (main ex_env ?a ex_world)))"
    using k(3) unfolding k1 m .
  then show ?thesis using t h1 h2 l3 p0 p1 c0 by simp
qed

text \<open>
  C7. When all \<open>N\<close> input paths name existing regular files (the sandbox being a fresh
  directory with no file below it), the staging loop of \<^verbatim>\<open>main\<close> completes, the files below
  the sandbox are then exactly the \<open>N\<close> staged ones, the \<open>i\<close>-th named \<^verbatim>\<open>source\<close>, the decimal
  index \<open>i\<close> from zero and the extension of the \<open>i\<close>-th input, and each holds the bytes
  of its input file. The run of \<^verbatim>\<open>main\<close> goes on from that world: it writes the document
  into it and starts the compiler passes there, with every staged file still holding
  the bytes of its input.
\<close>

theorem staging_copies_every_input:
  assumes "isabs (cwd w)" and "proper_dir (mkdtemp e)"
    and "\<forall>p \<in> set (map fst (files w)). \<not> in_dir (mkdtemp e) p"
    and "\<forall>f \<in> set (arg_file a). isfile w f"
  shows "fst (run_stage e a w) = None \<and>
         length (staged_names (arg_file a)) = length (arg_file a) \<and>
         set (sandbox_files e (snd (run_stage e a w))) =
           join (mkdtemp e) ` set (staged_names (arg_file a)) \<and>
         card (set (sandbox_files e (snd (run_stage e a w)))) = length (arg_file a) \<and>
         (\<forall>i < length (arg_file a).
            staged_names (arg_file a) ! i = ''source'' @ str_nat i @ snd (splitext (arg_file a ! i)) \<and>
            map_of (files (snd (run_stage e a w))) (join (mkdtemp e) (staged_names (arg_file a) ! i)) =
              map_of (files w) (join (cwd w) (arg_file a ! i))) \<and>
         run_build e a w = run_passes e 2 (compile_start e a w) \<and>
         (arg_file a \<noteq> [] \<longrightarrow>
            main e a w =
              leave e (cwd w)
                (case run_passes e 2 (compile_start e a w) of
                   (Some x, w1) \<Rightarrow> (Some x, w1)
                 | (None, w1) \<Rightarrow> finish e a (cwd w) w1)) \<and>
         (\<forall>i < length (arg_file a).
            map_of (files (compile_start e a w)) (join (mkdtemp e) (staged_names (arg_file a) ! i)) =
              map_of (files w) (join (cwd w) (arg_file a ! i)))"
proof -
  let ?fs = "arg_file a" and ?ns = "staged_names (arg_file a)" and ?w = "entered e a w"
  let ?d = "mkdtemp e"
  let ?w' = "snd (run_stage e a w)"
  have sb: "isabs ?d" using assms(2) by (simp add: proper_dir_def)
  have cw: "cwd ?w = ?d" by (rule entered_cwd [OF sb])
  have exists_outside: "\<not> in_dir ?d p" if ex: "map_of (files w) p \<noteq> None" for p
  proof -
    obtain b where "map_of (files w) p = Some b" using ex by auto
    then have "(p, b) \<in> set (files w)" by (rule map_of_SomeD)
    then have "p \<in> set (map fst (files w))" by force
    then show ?thesis using assms(3) by blast
  qed
  have 1: "length ?fs = length ?ns" by (simp add: staged_names_length)
  have 2: "proper_dir (cwd ?w)" using assms(2) by (simp add: cw)
  have 3: "\<forall>n \<in> set ?ns. \<not> isabs n" using staged_names_rel by blast
  have 4: "\<forall>f \<in> set ?fs. map_of (files ?w) (join (cwd w) f) \<noteq> None"
    using assms(4) by (simp add: isfile_def entered_files)
  have 5: "\<forall>f \<in> set ?fs. \<not> in_dir (cwd ?w) (join (cwd w) f)"
    using 4 exists_outside by (simp add: cw entered_files)
  have A: "fst (run_stage e a w) = None"
    and B: "\<And>p. p \<notin> join ?d ` set ?ns \<Longrightarrow> map_of (files ?w') p = map_of (files w) p"
    and C: "\<And>i. i < length ?ns \<Longrightarrow>
      map_of (files ?w') (join ?d (?ns ! i)) = map_of (files w) (join (cwd w) (?fs ! i))"
    using stage_present [OF 1 assms(1) 2 3 staged_names_distinct 4 5]
    unfolding run_stage_def [symmetric] cw entered_files by blast+
  have S: "set (sandbox_files e ?w') = join ?d ` set ?ns"
  proof (rule set_eqI)
    fix p
    have dom: "p \<in> fst ` set (files ?w') \<longleftrightarrow> map_of (files ?w') p \<noteq> None"
      by (simp add: map_of_eq_None_iff)
    show "p \<in> set (sandbox_files e ?w') \<longleftrightarrow> p \<in> join ?d ` set ?ns"
    proof
      assume "p \<in> set (sandbox_files e ?w')"
      then have i: "in_dir ?d p" and e: "map_of (files ?w') p \<noteq> None"
        using dom by (auto simp: sandbox_files_def)
      show "p \<in> join ?d ` set ?ns"
      proof (rule ccontr)
        assume "p \<notin> join ?d ` set ?ns"
        then have "map_of (files w) p \<noteq> None" using B e by simp
        then show False using exists_outside i by blast
      qed
    next
      assume "p \<in> join ?d ` set ?ns"
      then obtain i where i: "i < length ?ns" "p = join ?d (?ns ! i)"
        by (auto simp: in_set_conv_nth)
      have "?fs ! i \<in> set ?fs" using i(1) 1 by simp
      then have "map_of (files ?w') p \<noteq> None" using C [OF i(1)] 4 i(2) by (simp add: entered_files)
      moreover have "in_dir ?d p"
        using in_dir_join [OF assms(2), of "?ns ! i"] 3 i by simp
      ultimately show "p \<in> set (sandbox_files e ?w')"
        using dom by (auto simp: sandbox_files_def)
    qed
  qed
  have inj: "inj_on (join ?d) (set ?ns)"
    using join_rel_inj [OF assms(2)] 3 by (auto simp: inj_on_def)
  have K: "card (set (sandbox_files e ?w')) = length ?fs"
    using staged_names_distinct [of ?fs] by (simp add: S card_image [OF inj] distinct_card 1)
  obtain r ws where st: "stage (cwd w) (zip ?fs ?ns) ?w = (r, ws)"
    by (cases "stage (cwd w) (zip ?fs ?ns) ?w")
  have rn: "r = None" and ws: "?w' = ws" using A by (simp_all add: run_stage_def st)
  have L1: "run_build e a w = run_passes e 2 (compile_start e a w)"
    using texfile_not_staged [of ?fs]
    by (simp add: run_build_def build_def st rn compile_start_def run_stage_def)
  have sc: "run_scoped e a w =
      (case run_build e a w of (Some x, w1) \<Rightarrow> (Some x, w1) | (None, w1) \<Rightarrow> finish e a (cwd w) w1)"
    by (simp add: run_scoped_def run_build_def scoped_def)
  have L2: "main e a w =
      leave e (cwd w)
        (case run_passes e 2 (compile_start e a w) of
           (Some x, w1) \<Rightarrow> (Some x, w1)
         | (None, w1) \<Rightarrow> finish e a (cwd w) w1)" if ne: "arg_file a \<noteq> []"
    by (simp only: main_eq [OF ne] sc L1)
  have cws: "cwd ?w' = ?d"
    using stage_frame [of "cwd w" "zip ?fs ?ns" ?w] by (simp add: run_stage_def cw)
  have D: "map_of (files (compile_start e a w)) (join ?d (?ns ! i)) =
      map_of (files w) (join (cwd w) (?fs ! i))" if i: "i < length ?fs" for i
  proof -
    have m: "?ns ! i \<in> set ?ns" using i 1 by simp
    then have rel: "\<not> isabs (?ns ! i)" using 3 by blast
    have "texfile \<noteq> ?ns ! i" using m texfile_not_staged [of ?fs] by auto
    then have "join ?d texfile \<noteq> join ?d (?ns ! i)"
      using join_rel_inj [OF assms(2) pdffile_rel(2) rel] by blast
    then have "map_of (files (compile_start e a w)) (join ?d (?ns ! i)) =
        map_of (files ?w') (join ?d (?ns ! i))"
      by (simp add: compile_start_def write_text_def cws update_conv')
    then show ?thesis using C [of i] i 1 by simp
  qed
  show ?thesis using A 1 S K C L1 L2 D by (simp add: staged_names_nth)
qed


theorem staging_copies_every_input_witness:
  "isabs (cwd ex_world) \<and> proper_dir (mkdtemp ex_env) \<and>
   list_all (\<lambda>p. \<not> in_dir (mkdtemp ex_env) p) (map fst (files ex_world)) \<and>
   list_all (isfile ex_world) (arg_file ex_args) \<and>
   fst (run_stage ex_env ex_args ex_world) = None \<and>
   staged_names (arg_file ex_args) = [''source0.py'', ''source1.c''] \<and>
   card (set (sandbox_files ex_env (snd (run_stage ex_env ex_args ex_world)))) = 2 \<and>
   set (sandbox_files ex_env (snd (run_stage ex_env ex_args ex_world))) =
     {''/tmp/t/source0.py'', ''/tmp/t/source1.c''} \<and>
   map_of (files (snd (run_stage ex_env ex_args ex_world))) ''/tmp/t/source0.py'' = Some ''x = 1'' \<and>
   map_of (files (snd (run_stage ex_env ex_args ex_world))) ''/tmp/t/source1.c'' = Some ''int y;'' \<and>
   main ex_env ex_args ex_world =
     leave ex_env ''/home/u''
       (case run_passes ex_env 2 (compile_start ex_env ex_args ex_world) of
          (Some x, w1) \<Rightarrow> (Some x, w1)
        | (None, w1) \<Rightarrow> finish ex_env ex_args ''/home/u'' w1) \<and>
   map_of (files (compile_start ex_env ex_args ex_world)) ''/tmp/t/source0.py'' = Some ''x = 1'' \<and>
   map_of (files (compile_start ex_env ex_args ex_world)) ''/tmp/t/source1.c'' = Some ''int y;'' \<and>
   map_of (files (snd (main (ex_env\<lparr>rmtree_fails := True\<rparr>) ex_args ex_world))) ''/tmp/t/source0.py''
     = Some ''x = 1'' \<and>
   map_of (files (snd (main (ex_env\<lparr>rmtree_fails := True\<rparr>) ex_args ex_world))) ''/tmp/t/source1.c''
     = Some ''int y;''"
proof -
  have h1: "isabs (cwd ex_world)" by code_simp
  have h2: "proper_dir (mkdtemp ex_env)" by code_simp
  have l3: "list_all (\<lambda>p. \<not> in_dir (mkdtemp ex_env) p) (map fst (files ex_world))" by code_simp
  have h3: "\<forall>p \<in> set (map fst (files ex_world)). \<not> in_dir (mkdtemp ex_env) p"
    using l3 by (simp only: list_all_iff)
  have l4: "list_all (isfile ex_world) (arg_file ex_args)" by code_simp
  have h4: "\<forall>f \<in> set (arg_file ex_args). isfile ex_world f" using l4 by (simp only: list_all_iff)
  have fs: "arg_file ex_args = [''foo/bar.py'', ''b.c'']" by (simp add: ex_args_def)
  have ns: "staged_names (arg_file ex_args) = [''source0.py'', ''source1.c'']" by code_simp
  have j: "join (mkdtemp ex_env) ''source0.py'' = ''/tmp/t/source0.py''"
    "join (mkdtemp ex_env) ''source1.c'' = ''/tmp/t/source1.c''" by code_simp+
  have i: "map_of (files ex_world) (join (cwd ex_world) ''foo/bar.py'') = Some ''x = 1''"
    "map_of (files ex_world) (join (cwd ex_world) ''b.c'') = Some ''int y;''" by code_simp+
  note t = staging_copies_every_input [OF h1 h2 h3 h4]
  from t have copies: "\<forall>i < length (arg_file ex_args).
      map_of (files (snd (run_stage ex_env ex_args ex_world)))
        (join (mkdtemp ex_env) (staged_names (arg_file ex_args) ! i)) =
      map_of (files ex_world) (join (cwd ex_world) (arg_file ex_args ! i))"
    by blast
  have len: "0 < length (arg_file ex_args)" "1 < length (arg_file ex_args)" by (simp_all add: fs)
  have e0: "join (mkdtemp ex_env) (staged_names (arg_file ex_args) ! 0) = ''/tmp/t/source0.py''"
    and e1: "join (mkdtemp ex_env) (staged_names (arg_file ex_args) ! 1) = ''/tmp/t/source1.c''"
    and r0: "map_of (files ex_world) (join (cwd ex_world) (arg_file ex_args ! 0)) = Some ''x = 1''"
    and r1: "map_of (files ex_world) (join (cwd ex_world) (arg_file ex_args ! 1)) = Some ''int y;''"
    by code_simp+
  have a: "map_of (files (snd (run_stage ex_env ex_args ex_world))) ''/tmp/t/source0.py'' = Some ''x = 1''"
    using copies len(1) unfolding e0 [symmetric] r0 [symmetric] by blast
  have b: "map_of (files (snd (run_stage ex_env ex_args ex_world))) ''/tmp/t/source1.c'' = Some ''int y;''"
    using copies len(2) unfolding e1 [symmetric] r1 [symmetric] by blast
  have s: "set (sandbox_files ex_env (snd (run_stage ex_env ex_args ex_world))) =
     {''/tmp/t/source0.py'', ''/tmp/t/source1.c''}"
    using t j by (simp add: ns)
  from t have "card (set (sandbox_files ex_env (snd (run_stage ex_env ex_args ex_world)))) =
      length (arg_file ex_args)"
    by blast
  then have c: "card (set (sandbox_files ex_env (snd (run_stage ex_env ex_args ex_world)))) = 2"
    by (simp add: fs)
  from t have r: "fst (run_stage ex_env ex_args ex_world) = None" by blast
  have ne: "arg_file ex_args \<noteq> []" by (simp add: fs)
  have cw: "cwd ex_world = ''/home/u''" by (simp add: ex_world_def)
  from t ne have m: "main ex_env ex_args ex_world =
     leave ex_env (cwd ex_world)
       (case run_passes ex_env 2 (compile_start ex_env ex_args ex_world) of
          (Some x, w1) \<Rightarrow> (Some x, w1)
        | (None, w1) \<Rightarrow> finish ex_env ex_args (cwd ex_world) w1)"
    by blast
  from t have later: "\<forall>i < length (arg_file ex_args).
      map_of (files (compile_start ex_env ex_args ex_world))
        (join (mkdtemp ex_env) (staged_names (arg_file ex_args) ! i)) =
      map_of (files ex_world) (join (cwd ex_world) (arg_file ex_args ! i))"
    by blast
  have a': "map_of (files (compile_start ex_env ex_args ex_world)) ''/tmp/t/source0.py'' = Some ''x = 1''"
    using later len(1) unfolding e0 [symmetric] r0 [symmetric] by blast
  have b': "map_of (files (compile_start ex_env ex_args ex_world)) ''/tmp/t/source1.c'' = Some ''int y;''"
    using later len(2) unfolding e1 [symmetric] r1 [symmetric] by blast
  have kept: "map_of (files (snd (main (ex_env\<lparr>rmtree_fails := True\<rparr>) ex_args ex_world)))
      ''/tmp/t/source0.py'' = Some ''x = 1''"
    "map_of (files (snd (main (ex_env\<lparr>rmtree_fails := True\<rparr>) ex_args ex_world)))
      ''/tmp/t/source1.c'' = Some ''int y;''"
    by code_simp+
  show ?thesis using r h1 h2 l3 l4 ns a b s c m [unfolded cw] a' b' kept by simp
qed


end
